theory Spec2Isabelle
  imports Main
begin

section \<open>Values, dictionaries and errors\<close>

text \<open>
  The models of \<^verbatim>\<open>qord/models/channels.py\<close> and \<^verbatim>\<open>qord/models/guild_members.py\<close>
  exchange JSON payloads with a REST layer. A payload value is one of the following; a
  Python \<^verbatim>\<open>None\<close> read from a payload is \<open>JNull\<close>. Floating point numbers are left out.
\<close>

datatype json =
    JNull
  | JBool bool
  | JInt int
  | JStr string
  | JList "json list"
  | JObj "(string \<times> json) list"

text \<open>
  A Python \<^verbatim>\<open>dict\<close> with string keys: an association list in insertion order whose
  keys are pairwise distinct as long as it is built with \<open>setitem\<close>.
\<close>

type_synonym dict = "(string \<times> json) list"

datatype error = ValueError | KeyError | TypeError | HTTPForbidden | HTTPException

text \<open>\<^verbatim>\<open>d[k] = v\<close>: replaces the value of an existing key in place, appends a new key.\<close>

fun setitem :: "string \<Rightarrow> json \<Rightarrow> dict \<Rightarrow> dict" where
  "setitem k v [] = [(k, v)]"
| "setitem k v ((k', v') # d) = (if k' = k then (k, v) # d else (k', v') # setitem k v d)"

text \<open>\<^verbatim>\<open>d[k]\<close>: raises \<^verbatim>\<open>KeyError\<close> on a missing key.\<close>

definition getitem :: "dict \<Rightarrow> string \<Rightarrow> error + json" where
  "getitem d k = (case map_of d k of None \<Rightarrow> Inl KeyError | Some v \<Rightarrow> Inr v)"

text \<open>\<^verbatim>\<open>d.get(k, dflt)\<close>; \<^verbatim>\<open>d.get(k)\<close> is \<open>get d k JNull\<close>.\<close>

definition get :: "dict \<Rightarrow> string \<Rightarrow> json \<Rightarrow> json" where
  "get d k dflt = (case map_of d k of None \<Rightarrow> dflt | Some v \<Rightarrow> v)"

text \<open>The keys of a dictionary, in order.\<close>

definition keys :: "dict \<Rightarrow> string list" where
  "keys d = map fst d"

text \<open>
  Iterating over a payload value, as the comprehension
  \<^verbatim>\<open>[int(role_id) for role_id in data.get("roles", [])]\<close> does: a list yields its
  elements, a string its characters, a dictionary its keys; anything else is not iterable.
\<close>

fun iter :: "json \<Rightarrow> error + json list" where
  "iter (JList xs) = Inr xs"
| "iter (JStr s) = Inr (map (\<lambda>c. JStr [c]) s)"
| "iter (JObj kvs) = Inr (map (\<lambda>kv. JStr (fst kv)) kvs)"
| "iter JNull = Inl TypeError"
| "iter (JBool b) = Inl TypeError"
| "iter (JInt n) = Inl TypeError"

text \<open>
  The sentinel protocol of the edit methods: a keyword parameter is either left at its
  default \<^verbatim>\<open>EMPTY\<close> or given. A parameter that the source annotates as
  \<^verbatim>\<open>Optional[T]\<close>, or for which it handles \<^verbatim>\<open>None\<close>, has the type
  \<open>'a option param\<close>, and \<open>Given None\<close> is an explicit \<^verbatim>\<open>None\<close>.
\<close>

datatype 'a param = EMPTY | Given 'a

text \<open>
  A Python \<^verbatim>\<open>datetime\<close> is naive or aware. A naive one is a wall-clock reading with no
  time zone, here the count of microseconds that the reading shows; an aware one is an
  instant, here its count of microseconds on the UTC time line. \<^verbatim>\<open>a < b\<close> orders two naive
  datetimes by their readings (whatever clocks they were read from) and two aware ones by
  their instants; between a naive and an aware one it raises \<^verbatim>\<open>TypeError\<close>.
\<close>

datatype datetime = Naive int | Aware int

fun datetime_less :: "datetime \<Rightarrow> datetime \<Rightarrow> error + bool" where
  "datetime_less (Naive x) (Naive y) = Inr (x < y)"
| "datetime_less (Aware x) (Aware y) = Inr (x < y)"
| "datetime_less (Naive x) (Aware y) = Inl TypeError"
| "datetime_less (Aware x) (Naive y) = Inl TypeError"

section \<open>Entities and collaborators that the two modules use\<close>

text \<open>
  \<^verbatim>\<open>qord.models.roles.Role\<close> and \<^verbatim>\<open>qord.models.users.User\<close>: the two modules read
  \<^verbatim>\<open>role.id\<close>, \<^verbatim>\<open>user.id\<close> and \<^verbatim>\<open>user.name\<close> only.
\<close>

record Role =
  role_id :: int
  role_name :: string

record User =
  user_id :: int
  user_name :: string

text \<open>
  \<^verbatim>\<open>qord.enums.ChannelType\<close>: the numeric codes of the channel types that
  \<^verbatim>\<open>channels.py\<close> names. The codes are a parameter of every definition that reads them.
\<close>

record ChannelType =
  TEXT :: int
  NEWS :: int
  CATEGORY :: int
  VOICE :: int
  STAGE :: int

text \<open>
  The guild an entity belongs to: \<^verbatim>\<open>guild.id\<close> and the lookup
  \<^verbatim>\<open>guild.cache.get_role(role_id)\<close>, which returns a role or \<^verbatim>\<open>None\<close>. The guild is
  shared and mutable, so it is passed to each operation as it is at the time of the call.
\<close>

record Guild =
  guild_id :: int
  get_role :: "int \<Rightarrow> Role option"

text \<open>
  The requests that reach the REST layer \<^verbatim>\<open>guild._rest\<close>, with their keyword arguments
  in the order \<^verbatim>\<open>channel_id\<close>/\<^verbatim>\<open>guild_id\<close>, \<^verbatim>\<open>user_id\<close>, \<^verbatim>\<open>role_id\<close>, \<^verbatim>\<open>json\<close>,
  \<^verbatim>\<open>reason\<close>.
\<close>

datatype rest_call =
    delete_channel int "string option"
  | edit_channel int dict "string option"
  | kick_guild_member int int "string option"
  | edit_guild_member int int dict "string option"
  | add_guild_member_role int int int "string option"
  | remove_guild_member_role int int int "string option"

text \<open>
  What the two modules call and do not define:
  \<^item> \<open>int_of\<close>: Python's \<^verbatim>\<open>int(x)\<close> on a payload value;
  \<^item> \<open>get_optional_snowflake\<close> and \<open>parse_iso_timestamp\<close> of \<^verbatim>\<open>qord._helpers\<close>;
  \<^item> \<open>isoformat\<close>: \<^verbatim>\<open>datetime.isoformat\<close>;
  \<^item> \<open>make_User\<close>: the constructor \<^verbatim>\<open>User(data["user"], client=...)\<close>;
  \<^item> \<open>rest\<close>: the answer of the REST layer to a request, given the requests made before
    it: an exception, no body (\<open>None\<close>) or a payload.
  Each of them may raise, and is a parameter: the theorems hold whatever they do.
\<close>

record env =
  int_of :: "json \<Rightarrow> error + int"
  get_optional_snowflake :: "dict \<Rightarrow> string \<Rightarrow> error + int option"
  parse_iso_timestamp :: "json \<Rightarrow> error + datetime"
  isoformat :: "datetime \<Rightarrow> string"
  make_User :: "json \<Rightarrow> error + User"
  rest :: "rest_call list \<Rightarrow> rest_call \<Rightarrow> error + dict option"

section \<open>Channels (\<^verbatim>\<open>qord/models/channels.py\<close>)\<close>

text \<open>
  The slots of \<^verbatim>\<open>GuildChannel\<close>; \<^verbatim>\<open>id\<close> and \<^verbatim>\<open>type\<close> are named \<open>channel_id\<close> and
  \<open>channel_type\<close>. Slots that are filled with a payload value as it comes hold a \<open>json\<close>.
  \<^verbatim>\<open>CategoryChannel\<close> adds no slot.
\<close>

record GuildChannel =
  channel_id :: int
  channel_type :: int
  name :: json
  position :: json
  parent_id :: "int option"

type_synonym CategoryChannel = GuildChannel

text \<open>\<^verbatim>\<open>TextChannel\<close>, and \<^verbatim>\<open>NewsChannel\<close> which adds nothing to it.\<close>

record TextChannel = GuildChannel +
  topic :: json
  slowmode_delay :: json
  last_message_id :: "int option"
  default_auto_archive_duration :: json
  nsfw :: json
  last_pin_timestamp :: "datetime option"

text \<open>\<^verbatim>\<open>VoiceChannel\<close>, and \<^verbatim>\<open>StageChannel\<close> which adds nothing to it.\<close>

record VoiceChannel = GuildChannel +
  bitrate :: json
  rtc_region :: json
  user_limit :: json
  video_quality_mode :: json

text \<open>
  A statement that may raise inside a method that assigns to \<^verbatim>\<open>self\<close>: when \<open>r\<close> is an
  exception, the method ends with it and \<open>self\<close> stays as it is at that point; otherwise
  the method goes on with the value.
\<close>

definition attempt :: "error + 'a \<Rightarrow> 's \<Rightarrow> ('a \<Rightarrow> error option \<times> 's) \<Rightarrow> error option \<times> 's" where
  "attempt r self k = (case r of Inl e \<Rightarrow> (Some e, self) | Inr v \<Rightarrow> k v)"

text \<open>
  \<^verbatim>\<open>GuildChannel._update_with_data\<close>. The assignments run in the order of the source; an
  exception leaves the slots assigned before it changed, so the result is the exception
  raised, if any, together with the channel as it then is.
\<close>

definition GuildChannel_update_with_data ::
  "env \<Rightarrow> dict \<Rightarrow> 'a GuildChannel_scheme \<Rightarrow> error option \<times> 'a GuildChannel_scheme" where
  "GuildChannel_update_with_data env data self =
     attempt (getitem data ''id'') self (\<lambda>i.
     attempt (int_of env i) self (\<lambda>i'.
     let self = self\<lparr>channel_id := i'\<rparr> in
     attempt (getitem data ''type'') self (\<lambda>t.
     attempt (int_of env t) self (\<lambda>t'.
     let self = self\<lparr>channel_type := t'\<rparr> in
     attempt (getitem data ''name'') self (\<lambda>n.
     let self = self\<lparr>name := n\<rparr>;
         self = self\<lparr>position := get data ''position'' (JInt 1)\<rparr> in
     attempt (get_optional_snowflake env data ''parent_id'') self (\<lambda>p.
     (None, self\<lparr>parent_id := p\<rparr>)))))))"

text \<open>
  The conditional \<^verbatim>\<open>parse_iso_timestamp(x) if x is not None else None\<close>.
\<close>

definition parse_optional_timestamp :: "env \<Rightarrow> json \<Rightarrow> error + datetime option" where
  "parse_optional_timestamp env x =
     (if x \<noteq> JNull
      then (case parse_iso_timestamp env x of Inl e \<Rightarrow> Inl e | Inr t \<Rightarrow> Inr (Some t))
      else Inr None)"

text \<open>\<^verbatim>\<open>TextChannel._update_with_data\<close>.\<close>

definition TextChannel_update_with_data ::
  "env \<Rightarrow> dict \<Rightarrow> TextChannel \<Rightarrow> error option \<times> TextChannel" where
  "TextChannel_update_with_data env data self =
     (case GuildChannel_update_with_data env data self of
        (Some e, self) \<Rightarrow> (Some e, self)
      | (None, self) \<Rightarrow>
          (let self = self\<lparr>topic := get data ''topic'' JNull\<rparr> in
           attempt (get_optional_snowflake env data ''last_message_id'') self (\<lambda>m.
           let self = self\<lparr>last_message_id := m\<rparr>;
               self = self\<lparr>slowmode_delay := get data ''rate_limit_per_user'' (JInt 0)\<rparr>;
               self = self\<lparr>default_auto_archive_duration :=
                              get data ''default_auto_archive_duration'' (JInt 60)\<rparr>;
               self = self\<lparr>nsfw := get data ''nsfw'' (JBool False)\<rparr>;
               last_pin_timestamp' = get data ''last_pin_timestamp'' JNull in
           attempt (parse_optional_timestamp env last_pin_timestamp') self (\<lambda>t.
           (None, self\<lparr>last_pin_timestamp := t\<rparr>)))))"

text \<open>\<^verbatim>\<open>VoiceChannel._update_with_data\<close>.\<close>

definition VoiceChannel_update_with_data ::
  "env \<Rightarrow> dict \<Rightarrow> VoiceChannel \<Rightarrow> error option \<times> VoiceChannel" where
  "VoiceChannel_update_with_data env data self =
     (case GuildChannel_update_with_data env data self of
        (Some e, self) \<Rightarrow> (Some e, self)
      | (None, self) \<Rightarrow>
          (None, self\<lparr>bitrate := get data ''bitrate'' JNull,
                       rtc_region := get data ''rtc_region'' JNull,
                       user_limit := get data ''user_limit'' (JInt 0),
                       video_quality_mode := get data ''video_quality_mode'' (JInt 1)\<rparr>))"

text \<open>
  The keyword parameters of the \<^verbatim>\<open>edit\<close> methods are written with a prime, since several
  of them have the name of a slot; \<^verbatim>\<open>reason\<close> keeps its name. The test
  \<^verbatim>\<open>x is not EMPTY\<close> is the case distinction on \<open>'a param\<close>.

  \<open>put k f x json\<close> is the statement \<^verbatim>\<open>if x is not EMPTY: json[k] = f(x)\<close>, where \<open>f\<close>
  gives the value that the source stores for \<open>x\<close>.
\<close>

definition put :: "string \<Rightarrow> ('a \<Rightarrow> json) \<Rightarrow> 'a param \<Rightarrow> dict \<Rightarrow> dict" where
  "put k f x json = (case x of EMPTY \<Rightarrow> json | Given v \<Rightarrow> setitem k (f v) json)"

text \<open>
  The values stored for parameters that may be \<^verbatim>\<open>None\<close>: \<^verbatim>\<open>topic\<close> and \<^verbatim>\<open>rtc_region\<close>
  as they are; \<^verbatim>\<open>slowmode_delay\<close> and \<^verbatim>\<open>user_limit\<close> after
  \<^verbatim>\<open>if x is None: x = 0\<close>; \<^verbatim>\<open>parent.id if parent is not None else None\<close>.
\<close>

definition optional_str :: "string option \<Rightarrow> json" where
  "optional_str v = (case v of None \<Rightarrow> JNull | Some s \<Rightarrow> JStr s)"

definition none_as_zero :: "int option \<Rightarrow> json" where
  "none_as_zero v = JInt (case v of None \<Rightarrow> 0 | Some n \<Rightarrow> n)"

definition parent_id_of :: "CategoryChannel option \<Rightarrow> json" where
  "parent_id_of v = (case v of None \<Rightarrow> JNull | Some parent \<Rightarrow> JInt (channel_id parent))"

text \<open>
  Lines 240 to 274 of \<^verbatim>\<open>TextChannel.edit\<close>: the partial-update body, or the
  \<^verbatim>\<open>ValueError\<close> raised while it is built.
\<close>

definition TextChannel_edit_json ::
  "ChannelType \<Rightarrow> string param \<Rightarrow> int param \<Rightarrow> int param \<Rightarrow> bool param \<Rightarrow>
   CategoryChannel option param \<Rightarrow> string option param \<Rightarrow> int option param \<Rightarrow> int param \<Rightarrow>
   error + dict" where
  "TextChannel_edit_json ct name' type' position' nsfw' parent' topic' slowmode_delay'
       default_auto_archive_duration' =
     (let json = [];
          json = put ''name'' JStr name' json
      in
      case (case type' of
              EMPTY \<Rightarrow> Inr json
            | Given v \<Rightarrow>
                if \<not> (v = NEWS ct \<or> v = TEXT ct) then Inl ValueError
                else Inr (setitem ''type'' (JInt v) json)) of
        Inl e \<Rightarrow> Inl e
      | Inr json \<Rightarrow>
         (let json = put ''position'' JInt position' json;
              json = put ''nsfw'' JBool nsfw' json;
              json = put ''topic'' optional_str topic' json;
              json = put ''rate_limit_per_user'' none_as_zero slowmode_delay' json
          in
          case (case default_auto_archive_duration' of
                  EMPTY \<Rightarrow> Inr json
                | Given v \<Rightarrow>
                    if \<not> (v = 60 \<or> v = 1440 \<or> v = 4320 \<or> v = 10080) then Inl ValueError
                    else Inr (setitem ''default_auto_archive_duration'' (JInt v) json)) of
            Inl e \<Rightarrow> Inl e
          | Inr json \<Rightarrow> Inr (put ''parent_id'' parent_id_of parent' json)))"

text \<open>Lines 347 to 353 of \<^verbatim>\<open>CategoryChannel.edit\<close>; nothing raises here.\<close>

definition CategoryChannel_edit_json :: "string param \<Rightarrow> int param \<Rightarrow> error + dict" where
  "CategoryChannel_edit_json name' position' =
     (let json = [];
          json = put ''name'' JStr name' json;
          json = put ''position'' JInt position' json
      in Inr json)"

text \<open>Lines 460 to 487 of \<^verbatim>\<open>VoiceChannel.edit\<close>.\<close>

definition VoiceChannel_edit_json ::
  "string param \<Rightarrow> int param \<Rightarrow> int param \<Rightarrow> CategoryChannel option param \<Rightarrow>
   string option param \<Rightarrow> int option param \<Rightarrow> int param \<Rightarrow> error + dict" where
  "VoiceChannel_edit_json name' position' bitrate' parent' rtc_region' user_limit'
       video_quality_mode' =
     (let json = [];
          json = put ''name'' JStr name' json;
          json = put ''position'' JInt position' json;
          json = put ''rtc_region'' optional_str rtc_region' json
      in
      case (case bitrate' of
              EMPTY \<Rightarrow> Inr json
            | Given v \<Rightarrow>
                if v < 8000 \<or> v > 128000 then Inl ValueError
                else Inr (setitem ''bitrate'' (JInt v) json)) of
        Inl e \<Rightarrow> Inl e
      | Inr json \<Rightarrow>
         (let json = put ''user_limit'' none_as_zero user_limit' json;
              json = put ''video_quality_mode'' JInt video_quality_mode' json;
              json = put ''parent_id'' parent_id_of parent' json
          in Inr json))"

text \<open>
  The last lines of the three \<^verbatim>\<open>edit\<close> methods of channels, which are the same text:
  \<^verbatim>\<open>
  if json:
      data = await self._rest.edit_channel(channel_id=self.id, json=json, reason=reason)
      if data:
          self._update_with_data(data)
  \<close>
  \<open>update_with_data\<close> is the method of the class of \<open>self\<close>. In \<^verbatim>\<open>if data:\<close> an answer
  without body (\<^verbatim>\<open>None\<close>) and the empty dictionary are false. The result is the outcome
  (an exception or a normal return), the channel and the requests made so far. A
  request that raises has been made.
\<close>

definition edit_channel_request ::
  "env \<Rightarrow> (env \<Rightarrow> dict \<Rightarrow> 'a GuildChannel_scheme \<Rightarrow> error option \<times> 'a GuildChannel_scheme) \<Rightarrow>
   'a GuildChannel_scheme \<Rightarrow> dict \<Rightarrow> string option \<Rightarrow> rest_call list \<Rightarrow>
   (error + unit) \<times> 'a GuildChannel_scheme \<times> rest_call list" where
  "edit_channel_request env update_with_data self json reason log =
     (if json \<noteq> [] then
        (let call = edit_channel (channel_id self) json reason in
         case rest env log call of
           Inl e \<Rightarrow> (Inl e, self, log @ [call])
         | Inr None \<Rightarrow> (Inr (), self, log @ [call])
         | Inr (Some data) \<Rightarrow>
             if data \<noteq> [] then
               (case update_with_data env data self of
                  (Some e, self) \<Rightarrow> (Inl e, self, log @ [call])
                | (None, self) \<Rightarrow> (Inr (), self, log @ [call]))
             else (Inr (), self, log @ [call]))
      else (Inr (), self, log))"

text \<open>\<^verbatim>\<open>TextChannel.edit\<close>, which \<^verbatim>\<open>NewsChannel\<close> inherits.\<close>

definition TextChannel_edit ::
  "env \<Rightarrow> ChannelType \<Rightarrow> TextChannel \<Rightarrow> string param \<Rightarrow> int param \<Rightarrow> int param \<Rightarrow>
   bool param \<Rightarrow> CategoryChannel option param \<Rightarrow> string option param \<Rightarrow> int option param \<Rightarrow>
   int param \<Rightarrow> string option \<Rightarrow> rest_call list \<Rightarrow>
   (error + unit) \<times> TextChannel \<times> rest_call list" where
  "TextChannel_edit env ct self name' type' position' nsfw' parent' topic' slowmode_delay'
       default_auto_archive_duration' reason log =
     (case TextChannel_edit_json ct name' type' position' nsfw' parent' topic' slowmode_delay'
             default_auto_archive_duration' of
        Inl e \<Rightarrow> (Inl e, self, log)
      | Inr json \<Rightarrow>
          edit_channel_request env TextChannel_update_with_data self json reason log)"

text \<open>\<^verbatim>\<open>CategoryChannel.edit\<close>; the class inherits \<^verbatim>\<open>GuildChannel._update_with_data\<close>.\<close>

definition CategoryChannel_edit ::
  "env \<Rightarrow> CategoryChannel \<Rightarrow> string param \<Rightarrow> int param \<Rightarrow> string option \<Rightarrow> rest_call list \<Rightarrow>
   (error + unit) \<times> CategoryChannel \<times> rest_call list" where
  "CategoryChannel_edit env self name' position' reason log =
     (case CategoryChannel_edit_json name' position' of
        Inl e \<Rightarrow> (Inl e, self, log)
      | Inr json \<Rightarrow>
          edit_channel_request env GuildChannel_update_with_data self json reason log)"

text \<open>\<^verbatim>\<open>VoiceChannel.edit\<close>, which \<^verbatim>\<open>StageChannel\<close> inherits.\<close>

definition VoiceChannel_edit ::
  "env \<Rightarrow> VoiceChannel \<Rightarrow> string param \<Rightarrow> int param \<Rightarrow> int param \<Rightarrow>
   CategoryChannel option param \<Rightarrow> string option param \<Rightarrow> int option param \<Rightarrow> int param \<Rightarrow>
   string option \<Rightarrow> rest_call list \<Rightarrow> (error + unit) \<times> VoiceChannel \<times> rest_call list" where
  "VoiceChannel_edit env self name' position' bitrate' parent' rtc_region' user_limit'
       video_quality_mode' reason log =
     (case VoiceChannel_edit_json name' position' bitrate' parent' rtc_region' user_limit'
             video_quality_mode' of
        Inl e \<Rightarrow> (Inl e, self, log)
      | Inr json \<Rightarrow>
          edit_channel_request env VoiceChannel_update_with_data self json reason log)"

text \<open>
  The classes of channels, and \<^verbatim>\<open>_channel_factory\<close>. The source compares with
  \<^verbatim>\<open>is\<close>; between integers of the range of the channel type codes this is equality.
\<close>

datatype channel_class =
    GuildChannel_class
  | TextChannel_class
  | NewsChannel_class
  | CategoryChannel_class
  | VoiceChannel_class
  | StageChannel_class

definition channel_factory :: "ChannelType \<Rightarrow> int \<Rightarrow> channel_class" where
  "channel_factory ct type' =
     (if type' = TEXT ct then TextChannel_class
      else if type' = NEWS ct then NewsChannel_class
      else if type' = CATEGORY ct then CategoryChannel_class
      else if type' = VOICE ct then VoiceChannel_class
      else if type' = STAGE ct then StageChannel_class
      else GuildChannel_class)"

section \<open>Guild members (\<^verbatim>\<open>qord/models/guild_members.py\<close>)\<close>

text \<open>
  The slots of \<^verbatim>\<open>GuildMember\<close>, without the references to the guild and the client. An
  entry of \<open>roles\<close> is what \<^verbatim>\<open>get_role\<close> returned: a role or \<^verbatim>\<open>None\<close>.
\<close>

record GuildMember =
  user :: User
  nickname :: json
  avatar :: json
  deaf :: json
  mute :: json
  pending :: json
  joined_at :: datetime
  premium_since :: "datetime option"
  timeout_until :: "datetime option"
  role_ids :: "int list"
  roles :: "Role option list"

text \<open>The comprehension \<^verbatim>\<open>[int(role_id) for role_id in ...]\<close> over the elements.\<close>

fun int_each :: "env \<Rightarrow> json list \<Rightarrow> error + int list" where
  "int_each env [] = Inr []"
| "int_each env (x # xs) =
     (case int_of env x of
        Inl e \<Rightarrow> Inl e
      | Inr n \<Rightarrow> (case int_each env xs of Inl e \<Rightarrow> Inl e | Inr ns \<Rightarrow> Inr (n # ns)))"

text \<open>
  The loop of lines 124 to 126, with the list \<^verbatim>\<open>roles\<close> built so far:
  \<^verbatim>\<open>
  for role_id in role_ids:
      role = guild.cache.get_role(role_id)
      roles.append(role)
  \<close>
\<close>

fun resolve_roles :: "Guild \<Rightarrow> int list \<Rightarrow> Role option list \<Rightarrow> Role option list" where
  "resolve_roles guild [] roles' = roles'"
| "resolve_roles guild (role_id' # role_ids') roles' =
     (let role = get_role guild role_id'
      in resolve_roles guild role_ids' (roles' @ [role]))"

text \<open>\<^verbatim>\<open>GuildMember._update_with_data\<close>, lines 105 to 129.\<close>

definition GuildMember_update_with_data ::
  "env \<Rightarrow> Guild \<Rightarrow> dict \<Rightarrow> GuildMember \<Rightarrow> error option \<times> GuildMember" where
  "GuildMember_update_with_data env guild data self =
     attempt (getitem data ''user'') self (\<lambda>u.
     attempt (make_User env u) self (\<lambda>user'.
     let self = self\<lparr>user := user'\<rparr>;
         self = self\<lparr>nickname := get data ''nick'' JNull\<rparr>;
         self = self\<lparr>avatar := get data ''avatar'' JNull\<rparr>;
         self = self\<lparr>deaf := get data ''deaf'' (JBool False)\<rparr>;
         self = self\<lparr>mute := get data ''mute'' (JBool False)\<rparr>;
         self = self\<lparr>pending := get data ''pending'' (JBool False)\<rparr>;
         premium_since' = get data ''premium_since'' JNull;
         timeout_until' = get data ''communication_disabled_until'' JNull in
     attempt (getitem data ''joined_at'') self (\<lambda>j.
     attempt (parse_iso_timestamp env j) self (\<lambda>joined_at'.
     let self = self\<lparr>joined_at := joined_at'\<rparr> in
     attempt (parse_optional_timestamp env premium_since') self (\<lambda>p.
     let self = self\<lparr>premium_since := p\<rparr> in
     attempt (parse_optional_timestamp env timeout_until') self (\<lambda>t.
     let self = self\<lparr>timeout_until := t\<rparr> in
     attempt (iter (get data ''roles'' (JList []))) self (\<lambda>items.
     attempt (int_each env items) self (\<lambda>role_ids'.
     let roles' = resolve_roles guild role_ids' [];
         self = self\<lparr>role_ids := role_ids'\<rparr>;
         self = self\<lparr>roles := roles'\<rparr>
     in (None, self)))))))))"

text \<open>
  \<^verbatim>\<open>GuildMember.__init__\<close>. The slots of the new object have no value before
  \<^verbatim>\<open>_update_with_data\<close> assigns them; \<open>unset\<close> stands for such an object. When
  \<^verbatim>\<open>_update_with_data\<close> raises there is no member, and when it returns every slot has
  been assigned.
\<close>

definition unset :: GuildMember where
  "unset = \<lparr>user = \<lparr>user_id = 0, user_name = []\<rparr>, nickname = JNull, avatar = JNull,
            deaf = JNull, mute = JNull, pending = JNull, joined_at = Naive 0,
            premium_since = None, timeout_until = None, role_ids = [], roles = []\<rparr>"

definition GuildMember_init :: "env \<Rightarrow> Guild \<Rightarrow> dict \<Rightarrow> error + GuildMember" where
  "GuildMember_init env guild data =
     (case GuildMember_update_with_data env guild data unset of
        (Some e, self) \<Rightarrow> Inl e
      | (None, self) \<Rightarrow> Inr self)"

text \<open>\<^verbatim>\<open>GuildMember.is_boosting\<close>.\<close>

definition is_boosting :: "GuildMember \<Rightarrow> bool" where
  "is_boosting self = (premium_since self \<noteq> None)"

text \<open>
  \<^verbatim>\<open>GuildMember.is_timed_out\<close>. \<^verbatim>\<open>datetime.now()\<close>, called without a time zone, returns a
  naive datetime: the reading \<open>clock\<close> of the local wall clock at this call. The method
  returns a truth value or ends with the \<^verbatim>\<open>TypeError\<close> of the comparison.
\<close>

definition is_timed_out :: "int \<Rightarrow> GuildMember \<Rightarrow> error + bool" where
  "is_timed_out clock self =
     (let timeout_until' = timeout_until self
      in case timeout_until' of
           None \<Rightarrow> Inr False
         | Some t \<Rightarrow> (let now = Naive clock in datetime_less now t))"

text \<open>\<^verbatim>\<open>GuildMember.kick\<close>.\<close>

definition GuildMember_kick ::
  "env \<Rightarrow> Guild \<Rightarrow> GuildMember \<Rightarrow> string option \<Rightarrow> rest_call list \<Rightarrow>
   (error + unit) \<times> GuildMember \<times> rest_call list" where
  "GuildMember_kick env guild self reason log =
     (let call = kick_guild_member (guild_id guild) (user_id (user self)) reason in
      case rest env log call of
        Inl e \<Rightarrow> (Inl e, self, log @ [call])
      | Inr _ \<Rightarrow> (Inr (), self, log @ [call]))"

text \<open>Lines 282 to 301 of \<^verbatim>\<open>GuildMember.edit\<close>: the body. Nothing raises here.\<close>

definition GuildMember_edit_json ::
  "env \<Rightarrow> string option param \<Rightarrow> Role list option param \<Rightarrow> bool param \<Rightarrow> bool param \<Rightarrow>
   datetime option param \<Rightarrow> dict" where
  "GuildMember_edit_json env nickname' roles' mute' deaf' timeout_until' =
     (let json = [];
          json = put ''nick'' optional_str nickname' json;
          json = put ''roles''
                   (\<lambda>v. let roles'' = (case v of None \<Rightarrow> [] | Some rs \<Rightarrow> rs)
                        in JList (map (\<lambda>role. JInt (role_id role)) roles''))
                   roles' json;
          json = put ''mute'' JBool mute' json;
          json = put ''deaf'' JBool deaf' json;
          json = put ''communication_disabled_until''
                   (\<lambda>v. case v of None \<Rightarrow> JNull | Some t \<Rightarrow> JStr (isoformat env t))
                   timeout_until' json
      in json)"

text \<open>
  \<^verbatim>\<open>GuildMember.edit\<close>. The answer of \<^verbatim>\<open>edit_guild_member\<close> goes to
  \<^verbatim>\<open>_update_with_data\<close> whatever it is; subscripting \<^verbatim>\<open>None\<close> there is a
  \<^verbatim>\<open>TypeError\<close>.
\<close>

definition GuildMember_edit ::
  "env \<Rightarrow> Guild \<Rightarrow> GuildMember \<Rightarrow> string option param \<Rightarrow> Role list option param \<Rightarrow>
   bool param \<Rightarrow> bool param \<Rightarrow> datetime option param \<Rightarrow> string option \<Rightarrow> rest_call list \<Rightarrow>
   (error + unit) \<times> GuildMember \<times> rest_call list" where
  "GuildMember_edit env guild self nickname' roles' mute' deaf' timeout_until' reason log =
     (let json = GuildMember_edit_json env nickname' roles' mute' deaf' timeout_until' in
      if json \<noteq> [] then
        (let call = edit_guild_member (guild_id guild) (user_id (user self)) json reason in
         case rest env log call of
           Inl e \<Rightarrow> (Inl e, self, log @ [call])
         | Inr None \<Rightarrow> (Inl TypeError, self, log @ [call])
         | Inr (Some data) \<Rightarrow>
             (case GuildMember_update_with_data env guild data self of
                (Some e, self) \<Rightarrow> (Inl e, self, log @ [call])
              | (None, self) \<Rightarrow> (Inr (), self, log @ [call])))
      else (Inr (), self, log))"

text \<open>
  The loop of \<^verbatim>\<open>add_roles\<close>, lines 366 to 377, with the list \<^verbatim>\<open>ret\<close> built so far. An
  exception of the REST layer ends the loop.
\<close>

fun add_roles_loop ::
  "env \<Rightarrow> int \<Rightarrow> int \<Rightarrow> int list \<Rightarrow> bool \<Rightarrow> string option \<Rightarrow> Role list \<Rightarrow> Role list \<Rightarrow>
   rest_call list \<Rightarrow> (error + Role list) \<times> rest_call list" where
  "add_roles_loop env guild_id' user_id' existing_roles ignore_extra reason [] ret log =
     (Inr ret, log)"
| "add_roles_loop env guild_id' user_id' existing_roles ignore_extra reason (role # roles') ret
       log =
     (if role_id role \<in> set existing_roles \<and> ignore_extra then
        add_roles_loop env guild_id' user_id' existing_roles ignore_extra reason roles' ret log
      else
        (let call = add_guild_member_role guild_id' user_id' (role_id role) reason in
         case rest env log call of
           Inl e \<Rightarrow> (Inl e, log @ [call])
         | Inr _ \<Rightarrow>
             add_roles_loop env guild_id' user_id' existing_roles ignore_extra reason roles'
               (ret @ [role]) (log @ [call])))"

text \<open>
  \<^verbatim>\<open>GuildMember.add_roles\<close>. The method returns \<^verbatim>\<open>self.roles\<close> on one path and the
  list \<^verbatim>\<open>ret\<close> of roles on the other; the entries of \<^verbatim>\<open>ret\<close> are written \<open>Some role\<close>
  so that both are lists of the same type.
\<close>

definition GuildMember_add_roles ::
  "env \<Rightarrow> Guild \<Rightarrow> GuildMember \<Rightarrow> Role list \<Rightarrow> bool \<Rightarrow> bool \<Rightarrow> string option \<Rightarrow>
   rest_call list \<Rightarrow> (error + Role option list) \<times> GuildMember \<times> rest_call list" where
  "GuildMember_add_roles env guild self roles' overwrite ignore_extra reason log =
     (if roles' \<noteq> [] \<and> overwrite then
        (case GuildMember_edit env guild self EMPTY (Given (Some roles')) EMPTY EMPTY EMPTY
                reason log of
           (Inl e, self, log) \<Rightarrow> (Inl e, self, log)
         | (Inr _, self, log) \<Rightarrow> (Inr (roles self), self, log))
      else
        (let existing_roles = role_ids self in
         case add_roles_loop env (guild_id guild) (user_id (user self)) existing_roles
                ignore_extra reason roles' [] log of
           (Inl e, log) \<Rightarrow> (Inl e, self, log)
         | (Inr ret, log) \<Rightarrow> (Inr (map Some ret), self, log)))"

text \<open>The loop of \<^verbatim>\<open>remove_roles\<close>, lines 432 to 443.\<close>

fun remove_roles_loop ::
  "env \<Rightarrow> int \<Rightarrow> int \<Rightarrow> int list \<Rightarrow> bool \<Rightarrow> string option \<Rightarrow> Role list \<Rightarrow> Role list \<Rightarrow>
   rest_call list \<Rightarrow> (error + Role list) \<times> rest_call list" where
  "remove_roles_loop env guild_id' user_id' existing_roles ignore_extra reason [] ret log =
     (Inr ret, log)"
| "remove_roles_loop env guild_id' user_id' existing_roles ignore_extra reason (role # roles')
       ret log =
     (if role_id role \<notin> set existing_roles \<and> ignore_extra then
        remove_roles_loop env guild_id' user_id' existing_roles ignore_extra reason roles' ret
          log
      else
        (let call = remove_guild_member_role guild_id' user_id' (role_id role) reason in
         case rest env log call of
           Inl e \<Rightarrow> (Inl e, log @ [call])
         | Inr _ \<Rightarrow>
             remove_roles_loop env guild_id' user_id' existing_roles ignore_extra reason roles'
               (ret @ [role]) (log @ [call])))"

text \<open>\<^verbatim>\<open>GuildMember.remove_roles\<close>.\<close>

definition GuildMember_remove_roles ::
  "env \<Rightarrow> Guild \<Rightarrow> GuildMember \<Rightarrow> Role list \<Rightarrow> bool \<Rightarrow> string option \<Rightarrow> rest_call list \<Rightarrow>
   (error + Role option list) \<times> GuildMember \<times> rest_call list" where
  "GuildMember_remove_roles env guild self roles' ignore_extra reason log =
     (if roles' = [] then
        (case GuildMember_edit env guild self EMPTY (Given (Some [])) EMPTY EMPTY EMPTY reason
                log of
           (Inl e, self, log) \<Rightarrow> (Inl e, self, log)
         | (Inr _, self, log) \<Rightarrow> (Inr (roles self), self, log))
      else
        (let existing_roles = role_ids self in
         case remove_roles_loop env (guild_id guild) (user_id (user self)) existing_roles
                ignore_extra reason roles' [] log of
           (Inl e, log) \<Rightarrow> (Inl e, self, log)
         | (Inr ret, log) \<Rightarrow> (Inr (map Some ret), self, log)))"

section \<open>The bodies of the channel edits, written out\<close>

text \<open>
  The body that \<^verbatim>\<open>TextChannel.edit\<close> has built when no \<^verbatim>\<open>ValueError\<close> was raised, as
  the sequence of its assignments to \<^verbatim>\<open>json\<close>, and the same for
  \<^verbatim>\<open>VoiceChannel.edit\<close>. The lemmas \<open>TextChannel_edit_json_eq\<close> and
  \<open>VoiceChannel_edit_json_eq\<close> show that the methods build these bodies.
\<close>

definition TextChannel_body ::
  "string param \<Rightarrow> int param \<Rightarrow> int param \<Rightarrow> bool param \<Rightarrow> CategoryChannel option param \<Rightarrow>
   string option param \<Rightarrow> int option param \<Rightarrow> int param \<Rightarrow> dict" where
  "TextChannel_body n ty p ns par tp sd d =
     put ''parent_id'' parent_id_of par
       (put ''default_auto_archive_duration'' JInt d
         (put ''rate_limit_per_user'' none_as_zero sd
           (put ''topic'' optional_str tp
             (put ''nsfw'' JBool ns
               (put ''position'' JInt p
                 (put ''type'' JInt ty
                   (put ''name'' JStr n [])))))))"

definition VoiceChannel_body ::
  "string param \<Rightarrow> int param \<Rightarrow> int param \<Rightarrow> CategoryChannel option param \<Rightarrow>
   string option param \<Rightarrow> int option param \<Rightarrow> int param \<Rightarrow> dict" where
  "VoiceChannel_body n p b par r u v =
     put ''parent_id'' parent_id_of par
       (put ''video_quality_mode'' JInt v
         (put ''user_limit'' none_as_zero u
           (put ''bitrate'' JInt b
             (put ''rtc_region'' optional_str r
               (put ''position'' JInt p
                 (put ''name'' JStr n []))))))"

section \<open>Concrete values used in the examples\<close>

text \<open>The codes that the Discord API gives to the five channel types.\<close>

definition discord_codes :: ChannelType where
  "discord_codes = \<lparr>TEXT = 0, NEWS = 5, CATEGORY = 4, VOICE = 2, STAGE = 13\<rparr>"

text \<open>
  A member whose \<^verbatim>\<open>timeout_until\<close> is an aware datetime, as an ISO-8601 value with a UTC
  offset such as \<^verbatim>\<open>2999-01-01T00:00:00+00:00\<close> gives with \<^verbatim>\<open>datetime.fromisoformat\<close>.
\<close>

definition timed_member :: GuildMember where
  "timed_member = unset\<lparr>timeout_until := Some (Aware 100)\<rparr>"

text \<open>
  Stand-ins for what the two modules call and do not define. The first is the builtin
  \<^verbatim>\<open>int\<close> on payload values: an integer is returned as it is, a truth value gives 0 or 1,
  and a string is read in base ten after the white space around it is stripped, with an
  optional sign and with single underscores allowed between digits; any other string is a
  \<^verbatim>\<open>ValueError\<close>, and \<^verbatim>\<open>None\<close>, a list or a dictionary a \<^verbatim>\<open>TypeError\<close>.
\<close>

definition is_space :: "char \<Rightarrow> bool" where
  "is_space c = ((of_char c :: nat) \<in> {9, 10, 11, 12, 13, 28, 29, 30, 31, 32, 133, 160})"

definition strip :: "string \<Rightarrow> string" where
  "strip s = rev (dropWhile is_space (rev (dropWhile is_space s)))"

definition is_digit :: "char \<Rightarrow> bool" where
  "is_digit c = (48 \<le> (of_char c :: nat) \<and> (of_char c :: nat) \<le> 57)"

fun read_digits :: "string \<Rightarrow> nat \<Rightarrow> nat option" where
  "read_digits [] acc = Some acc"
| "read_digits [c] acc = (if is_digit c then Some (10 * acc + (of_char c - 48)) else None)"
| "read_digits (c # c' # cs) acc =
     (if is_digit c then read_digits (c' # cs) (10 * acc + (of_char c - 48))
      else if c = CHR ''_'' \<and> is_digit c' then read_digits (c' # cs) acc
      else None)"

definition example_int :: "json \<Rightarrow> error + int" where
  "example_int x =
     (case x of
        JInt n \<Rightarrow> Inr n
      | JBool b \<Rightarrow> Inr (if b then 1 else 0)
      | JStr s \<Rightarrow>
          (let s = strip s;
               negative = (s \<noteq> [] \<and> hd s = CHR ''-'');
               digits = (if s \<noteq> [] \<and> (hd s = CHR ''-'' \<or> hd s = CHR ''+'') then tl s else s)
           in if digits \<noteq> [] \<and> is_digit (hd digits) then
                (case read_digits digits 0 of
                   None \<Rightarrow> Inl ValueError
                 | Some n \<Rightarrow> Inr (if negative then - int n else int n))
              else Inl ValueError)
      | _ \<Rightarrow> Inl TypeError)"

text \<open>
  The others: a reader of optional snowflakes, timestamps that are numbers already and
  carry a time zone, a user payload of which only \<^verbatim>\<open>id\<close> is read, and a REST layer that
  answers every request without a body.
\<close>

definition example_snowflake :: "dict \<Rightarrow> string \<Rightarrow> error + int option" where
  "example_snowflake d k =
     (case map_of d k of
        None \<Rightarrow> Inr None
      | Some v \<Rightarrow>
          (if v = JNull then Inr None
           else (case example_int v of Inl e \<Rightarrow> Inl e | Inr n \<Rightarrow> Inr (Some n))))"

definition example_timestamp :: "json \<Rightarrow> error + datetime" where
  "example_timestamp x = (case x of JInt n \<Rightarrow> Inr (Aware n) | _ \<Rightarrow> Inl ValueError)"

definition example_user :: "json \<Rightarrow> error + User" where
  "example_user x =
     (case x of
        JObj d \<Rightarrow>
          (case map_of d ''id'' of
             None \<Rightarrow> Inl KeyError
           | Some i \<Rightarrow>
               (case example_int i of
                  Inl e \<Rightarrow> Inl e
                | Inr n \<Rightarrow> Inr \<lparr>user_id = n, user_name = ''someone''\<rparr>))
      | _ \<Rightarrow> Inl TypeError)"

definition example_env :: env where
  "example_env =
     \<lparr>int_of = example_int, get_optional_snowflake = example_snowflake,
      parse_iso_timestamp = example_timestamp, isoformat = (\<lambda>t. ''2022-01-01T00:00:00''),
      make_User = example_user, rest = (\<lambda>log call. Inr None)\<rparr>"

text \<open>A text channel and a voice channel.\<close>

definition example_text :: TextChannel where
  "example_text =
     \<lparr>channel_id = 7, channel_type = 0, name = JStr ''general'', position = JInt 1,
      parent_id = None, topic = JNull, slowmode_delay = JInt 0, last_message_id = None,
      default_auto_archive_duration = JInt 60, nsfw = JBool False, last_pin_timestamp = None\<rparr>"

definition example_voice :: VoiceChannel where
  "example_voice =
     \<lparr>channel_id = 8, channel_type = 2, name = JStr ''lounge'', position = JInt 2,
      parent_id = None, bitrate = JInt 64000, rtc_region = JNull, user_limit = JInt 0,
      video_quality_mode = JInt 1\<rparr>"

text \<open>
  Two roles, a guild whose cache holds them, a member of it who has the first role, and a
  member payload that names the second role and a role that the cache does not hold.
\<close>

definition role_a :: Role where
  "role_a = \<lparr>role_id = 1, role_name = ''a''\<rparr>"

definition role_b :: Role where
  "role_b = \<lparr>role_id = 2, role_name = ''b''\<rparr>"

definition example_guild :: Guild where
  "example_guild =
     \<lparr>guild_id = 10,
      get_role = (\<lambda>i. if i = 1 then Some role_a else if i = 2 then Some role_b else None)\<rparr>"

definition example_member :: GuildMember where
  "example_member =
     unset\<lparr>user := \<lparr>user_id = 42, user_name = ''someone''\<rparr>, role_ids := [1],
           roles := [Some role_a]\<rparr>"

definition example_payload :: dict where
  "example_payload =
     [(''user'', JObj [(''id'', JStr ''42'')]), (''joined_at'', JInt 5),
      (''roles'', JList [JStr ''2'', JStr ''3''])]"

text \<open>A REST layer that answers every request with that payload.\<close>

definition answering_env :: env where
  "answering_env = example_env\<lparr>rest := (\<lambda>log call. Inr (Some example_payload))\<rparr>"

text \<open>The member that this payload describes in the example guild.\<close>

definition hydrated_member :: GuildMember where
  "hydrated_member =
     \<lparr>user = \<lparr>user_id = 42, user_name = ''someone''\<rparr>, nickname = JNull, avatar = JNull,
      deaf = JBool False, mute = JBool False, pending = JBool False, joined_at = Aware 5,
      premium_since = None, timeout_until = None, role_ids = [2, 3],
      roles = [Some role_b, None]\<rparr>"

section \<open>Dictionaries\<close>

lemma map_of_setitem:
  "map_of (setitem k v d) k' = (if k' = k then Some v else map_of d k')"
  by (induction d) auto

lemma keys_setitem: "set (keys (setitem k v d)) = insert k (set (keys d))"
  unfolding keys_def by (induction k v d rule: setitem.induct) auto

lemma distinct_keys_setitem: "distinct (keys d) \<Longrightarrow> distinct (keys (setitem k v d))"
proof (induction d)
  case Nil
  then show ?case by (simp add: keys_def)
next
  case (Cons p d)
  obtain k' v' where p: "p = (k', v')" by (cases p)
  have "set (map fst (setitem k v d)) = insert k (set (map fst d))"
    using keys_setitem [of k v d] by (simp add: keys_def)
  with Cons p show ?case by (auto simp: keys_def)
qed

lemma setitem_not_Nil: "setitem k v d \<noteq> []"
  by (cases d) (auto split: if_splits)

section \<open>The channel factory\<close>

text \<open>
  Claim C8. \<^verbatim>\<open>_channel_factory\<close> is a function of the type code alone: when the five
  codes of \<^verbatim>\<open>ChannelType\<close> are pairwise different, \<^verbatim>\<open>TEXT\<close> gives \<^verbatim>\<open>TextChannel\<close>,
  \<^verbatim>\<open>NEWS\<close> gives \<^verbatim>\<open>NewsChannel\<close>, \<^verbatim>\<open>CATEGORY\<close> gives \<^verbatim>\<open>CategoryChannel\<close>, \<^verbatim>\<open>VOICE\<close> gives
  \<^verbatim>\<open>VoiceChannel\<close>, \<^verbatim>\<open>STAGE\<close> gives \<^verbatim>\<open>StageChannel\<close>, and every other code gives the base
  class \<^verbatim>\<open>GuildChannel\<close>; no code is an error.
\<close>

theorem channel_factory_mapping:
  "distinct [TEXT ct, NEWS ct, CATEGORY ct, VOICE ct, STAGE ct] \<Longrightarrow>
     channel_factory ct (TEXT ct) = TextChannel_class \<and>
     channel_factory ct (NEWS ct) = NewsChannel_class \<and>
     channel_factory ct (CATEGORY ct) = CategoryChannel_class \<and>
     channel_factory ct (VOICE ct) = VoiceChannel_class \<and>
     channel_factory ct (STAGE ct) = StageChannel_class \<and>
     (\<forall>t. t \<notin> {TEXT ct, NEWS ct, CATEGORY ct, VOICE ct, STAGE ct} \<longrightarrow>
          channel_factory ct t = GuildChannel_class)"
  by (auto simp: channel_factory_def)

theorem channel_factory_mapping_witness:
  "distinct [TEXT discord_codes, NEWS discord_codes, CATEGORY discord_codes,
             VOICE discord_codes, STAGE discord_codes] \<and>
   channel_factory discord_codes 0 = TextChannel_class \<and>
   channel_factory discord_codes 5 = NewsChannel_class \<and>
   channel_factory discord_codes 4 = CategoryChannel_class \<and>
   channel_factory discord_codes 2 = VoiceChannel_class \<and>
   channel_factory discord_codes 13 = StageChannel_class \<and>
   channel_factory discord_codes 15 = GuildChannel_class"
proof -
  have d: "distinct [TEXT discord_codes, NEWS discord_codes, CATEGORY discord_codes,
             VOICE discord_codes, STAGE discord_codes]"
    by (simp add: discord_codes_def)
  have "(15::int) \<notin> {TEXT discord_codes, NEWS discord_codes, CATEGORY discord_codes,
             VOICE discord_codes, STAGE discord_codes}"
    by (simp add: discord_codes_def)
  with channel_factory_mapping [OF d] d show ?thesis
    by (simp add: discord_codes_def)
qed

section \<open>Timeouts\<close>

text \<open>
  Claim C5. \<^verbatim>\<open>is_timed_out\<close> returns false when \<^verbatim>\<open>timeout_until\<close> is \<^verbatim>\<open>None\<close>. When
  \<^verbatim>\<open>timeout_until\<close> is a naive datetime it returns whether the reading of
  \<^verbatim>\<open>datetime.now()\<close> at this call is before it, computed anew at each call. When
  \<^verbatim>\<open>timeout_until\<close> is a timezone-aware datetime, in the past or in the future, the
  comparison with the naive \<^verbatim>\<open>datetime.now()\<close> raises \<^verbatim>\<open>TypeError\<close> and the method
  returns neither false nor true; this is so for the member \<open>timed_member\<close>.
\<close>

theorem is_timed_out_outcomes:
  "is_timed_out clock (self\<lparr>timeout_until := None\<rparr>) = Inr False \<and>
   is_timed_out clock (self\<lparr>timeout_until := Some (Naive t)\<rparr>) = Inr (clock < t) \<and>
   is_timed_out clock (self\<lparr>timeout_until := Some (Aware t)\<rparr>) = Inl TypeError \<and>
   is_timed_out 50 timed_member = Inl TypeError \<and>
   is_timed_out 150 timed_member = Inl TypeError"
  by (simp add: is_timed_out_def timed_member_def)

section \<open>Edits that set nothing\<close>

text \<open>
  Claim C2. When every field of \<^verbatim>\<open>TextChannel.edit\<close>, \<^verbatim>\<open>VoiceChannel.edit\<close>,
  \<^verbatim>\<open>CategoryChannel.edit\<close> or \<^verbatim>\<open>GuildMember.edit\<close> is left at \<^verbatim>\<open>EMPTY\<close>, the method
  returns normally, no request is made to the REST layer and the entity is unchanged.
\<close>

theorem edit_nothing_is_noop:
  "TextChannel_edit env ct tc EMPTY EMPTY EMPTY EMPTY EMPTY EMPTY EMPTY EMPTY reason log
     = (Inr (), tc, log) \<and>
   VoiceChannel_edit env vc EMPTY EMPTY EMPTY EMPTY EMPTY EMPTY EMPTY reason log
     = (Inr (), vc, log) \<and>
   CategoryChannel_edit env cc EMPTY EMPTY reason log = (Inr (), cc, log) \<and>
   GuildMember_edit env guild m EMPTY EMPTY EMPTY EMPTY EMPTY reason log = (Inr (), m, log)"
  by (simp add: TextChannel_edit_def TextChannel_edit_json_def VoiceChannel_edit_def
      VoiceChannel_edit_json_def CategoryChannel_edit_def CategoryChannel_edit_json_def
      GuildMember_edit_def GuildMember_edit_json_def edit_channel_request_def put_def)

section \<open>The bodies of the edits\<close>

lemma put_EMPTY: "put k f EMPTY d = d"
  by (simp add: put_def)

lemma put_Given: "put k f (Given v) d = setitem k (f v) d"
  by (simp add: put_def)

lemma keys_put:
  "set (keys (put k f x d)) = (if x = EMPTY then {} else {k}) \<union> set (keys d)"
  by (cases x) (simp_all add: put_def keys_setitem)

lemma distinct_keys_put: "distinct (keys d) \<Longrightarrow> distinct (keys (put k f x d))"
  by (cases x) (simp_all add: put_def distinct_keys_setitem)

lemma keys_Nil: "keys [] = []"
  by (simp add: keys_def)

lemma map_of_put_other: "k' \<noteq> k \<Longrightarrow> map_of (put k f x d) k' = map_of d k'"
  by (cases x) (simp_all add: put_def map_of_setitem)

lemma map_of_put_same: "map_of (put k f (Given v) d) k = Some (f v)"
  by (simp add: put_def map_of_setitem)

lemma mem_if_single: "x \<in> (if c then {} else {k}) \<longleftrightarrow> \<not> c \<and> x = k"
  by simp

lemma TextChannel_edit_json_eq:
  "TextChannel_edit_json ct n ty p ns par tp sd d =
     (if (\<exists>v. ty = Given v \<and> v \<noteq> NEWS ct \<and> v \<noteq> TEXT ct) \<or>
         (\<exists>v. d = Given v \<and> v \<notin> {60, 1440, 4320, 10080})
      then Inl ValueError
      else Inr (TextChannel_body n ty p ns par tp sd d))"
  by (cases ty; cases d)
     (simp_all add: TextChannel_edit_json_def TextChannel_body_def Let_def put_EMPTY put_Given)


lemma VoiceChannel_edit_json_eq:
  "VoiceChannel_edit_json n p b par r u v =
     (if (\<exists>x. b = Given x \<and> (x < 8000 \<or> 128000 < x)) then Inl ValueError
      else Inr (VoiceChannel_body n p b par r u v))"
  by (cases b)
     (simp_all add: VoiceChannel_edit_json_def VoiceChannel_body_def Let_def put_EMPTY put_Given)

lemma CategoryChannel_edit_json_eq:
  "CategoryChannel_edit_json n p = Inr (put ''position'' JInt p (put ''name'' JStr n []))"
  by (simp add: CategoryChannel_edit_json_def Let_def)

lemma TextChannel_body_keys:
  "set (keys (TextChannel_body n ty p ns par tp sd d)) =
           (if n = EMPTY then {} else {''name''}) \<union>
           ((if ty = EMPTY then {} else {''type''}) \<union>
           ((if p = EMPTY then {} else {''position''}) \<union>
           ((if ns = EMPTY then {} else {''nsfw''}) \<union>
           ((if tp = EMPTY then {} else {''topic''}) \<union>
           ((if sd = EMPTY then {} else {''rate_limit_per_user''}) \<union>
           ((if d = EMPTY then {} else {''default_auto_archive_duration''}) \<union>
           (if par = EMPTY then {} else {''parent_id''})))))))"
  unfolding TextChannel_body_def keys_put keys_Nil by (simp only: Un_ac list.set Un_empty_right Un_empty_left)

lemma TextChannel_body_distinct: "distinct (keys (TextChannel_body n ty p ns par tp sd d))"
  unfolding TextChannel_body_def by (intro distinct_keys_put) (simp add: keys_Nil)

lemma TextChannel_body_key_iff:
  "(''name'' \<in> set (keys (TextChannel_body n ty p ns par tp sd d)) \<longleftrightarrow> n \<noteq> EMPTY) \<and>
   (''type'' \<in> set (keys (TextChannel_body n ty p ns par tp sd d)) \<longleftrightarrow> ty \<noteq> EMPTY) \<and>
   (''position'' \<in> set (keys (TextChannel_body n ty p ns par tp sd d)) \<longleftrightarrow> p \<noteq> EMPTY) \<and>
   (''nsfw'' \<in> set (keys (TextChannel_body n ty p ns par tp sd d)) \<longleftrightarrow> ns \<noteq> EMPTY) \<and>
   (''parent_id'' \<in> set (keys (TextChannel_body n ty p ns par tp sd d)) \<longleftrightarrow> par \<noteq> EMPTY) \<and>
   (''topic'' \<in> set (keys (TextChannel_body n ty p ns par tp sd d)) \<longleftrightarrow> tp \<noteq> EMPTY) \<and>
   (''rate_limit_per_user'' \<in> set (keys (TextChannel_body n ty p ns par tp sd d))
      \<longleftrightarrow> sd \<noteq> EMPTY) \<and>
   (''default_auto_archive_duration'' \<in> set (keys (TextChannel_body n ty p ns par tp sd d))
      \<longleftrightarrow> d \<noteq> EMPTY) \<and>
   set (keys (TextChannel_body n ty p ns par tp sd d))
     \<subseteq> {''name'', ''type'', ''position'', ''nsfw'', ''parent_id'', ''topic'',
         ''rate_limit_per_user'', ''default_auto_archive_duration''}"
  unfolding TextChannel_body_keys
  by (simp add: mem_if_single subset_iff del: split_paired_All)


lemma VoiceChannel_body_keys:
  "set (keys (VoiceChannel_body n p b par r u v)) =
           (if n = EMPTY then {} else {''name''}) \<union>
           ((if p = EMPTY then {} else {''position''}) \<union>
           ((if r = EMPTY then {} else {''rtc_region''}) \<union>
           ((if b = EMPTY then {} else {''bitrate''}) \<union>
           ((if u = EMPTY then {} else {''user_limit''}) \<union>
           ((if v = EMPTY then {} else {''video_quality_mode''}) \<union>
           (if par = EMPTY then {} else {''parent_id''}))))))"
  unfolding VoiceChannel_body_def keys_put keys_Nil
  by (simp only: Un_ac list.set Un_empty_right Un_empty_left)

lemma VoiceChannel_body_distinct: "distinct (keys (VoiceChannel_body n p b par r u v))"
  unfolding VoiceChannel_body_def by (intro distinct_keys_put) (simp add: keys_Nil)

lemma VoiceChannel_body_key_iff:
  "(''name'' \<in> set (keys (VoiceChannel_body n p b par r u v)) \<longleftrightarrow> n \<noteq> EMPTY) \<and>
   (''position'' \<in> set (keys (VoiceChannel_body n p b par r u v)) \<longleftrightarrow> p \<noteq> EMPTY) \<and>
   (''bitrate'' \<in> set (keys (VoiceChannel_body n p b par r u v)) \<longleftrightarrow> b \<noteq> EMPTY) \<and>
   (''parent_id'' \<in> set (keys (VoiceChannel_body n p b par r u v)) \<longleftrightarrow> par \<noteq> EMPTY) \<and>
   (''rtc_region'' \<in> set (keys (VoiceChannel_body n p b par r u v)) \<longleftrightarrow> r \<noteq> EMPTY) \<and>
   (''user_limit'' \<in> set (keys (VoiceChannel_body n p b par r u v)) \<longleftrightarrow> u \<noteq> EMPTY) \<and>
   (''video_quality_mode'' \<in> set (keys (VoiceChannel_body n p b par r u v)) \<longleftrightarrow> v \<noteq> EMPTY) \<and>
   set (keys (VoiceChannel_body n p b par r u v))
     \<subseteq> {''name'', ''position'', ''bitrate'', ''parent_id'', ''rtc_region'', ''user_limit'',
         ''video_quality_mode''}"
  unfolding VoiceChannel_body_keys
  by (simp add: mem_if_single subset_iff del: split_paired_All)

lemma edit_channel_request_log:
  "snd (snd (edit_channel_request env upd self json reason log))
     = (if json = [] then log else log @ [edit_channel (channel_id self) json reason])"
  by (auto simp: edit_channel_request_def Let_def split: sum.splits option.splits prod.splits)

lemma TextChannel_part:
  assumes "TextChannel_edit_json ct n ty p ns par tp sd d = Inr json"
  shows "(''name'' \<in> set (keys json) \<longleftrightarrow> n \<noteq> EMPTY) \<and>
   (''type'' \<in> set (keys json) \<longleftrightarrow> ty \<noteq> EMPTY) \<and>
   (''position'' \<in> set (keys json) \<longleftrightarrow> p \<noteq> EMPTY) \<and>
   (''nsfw'' \<in> set (keys json) \<longleftrightarrow> ns \<noteq> EMPTY) \<and>
   (''parent_id'' \<in> set (keys json) \<longleftrightarrow> par \<noteq> EMPTY) \<and>
   (''topic'' \<in> set (keys json) \<longleftrightarrow> tp \<noteq> EMPTY) \<and>
   (''rate_limit_per_user'' \<in> set (keys json) \<longleftrightarrow> sd \<noteq> EMPTY) \<and>
   (''default_auto_archive_duration'' \<in> set (keys json) \<longleftrightarrow> d \<noteq> EMPTY) \<and>
   set (keys json) \<subseteq> {''name'', ''type'', ''position'', ''nsfw'', ''parent_id'', ''topic'',
         ''rate_limit_per_user'', ''default_auto_archive_duration''} \<and>
   distinct (keys json) \<and>
   (tp = Given None \<longrightarrow> map_of json ''topic'' = Some JNull) \<and>
   (sd = Given None \<longrightarrow> map_of json ''rate_limit_per_user'' = Some (JInt 0)) \<and>
   (par = Given None \<longrightarrow> map_of json ''parent_id'' = Some JNull) \<and>
   snd (snd (TextChannel_edit env ct tc n ty p ns par tp sd d reason log))
     = (if json = [] then log else log @ [edit_channel (channel_id tc) json reason])"
proof -
  from assms have json: "json = TextChannel_body n ty p ns par tp sd d"
    by (simp add: TextChannel_edit_json_eq split: if_split_asm)
  have v1: "tp = Given None \<longrightarrow> map_of json ''topic'' = Some JNull"
    by (simp add: json TextChannel_body_def map_of_put_other map_of_put_same optional_str_def)
  have v2: "sd = Given None \<longrightarrow> map_of json ''rate_limit_per_user'' = Some (JInt 0)"
    by (simp add: json TextChannel_body_def map_of_put_other map_of_put_same none_as_zero_def)
  have v3: "par = Given None \<longrightarrow> map_of json ''parent_id'' = Some JNull"
    by (simp add: json TextChannel_body_def map_of_put_other map_of_put_same parent_id_of_def)
  have out: "snd (snd (TextChannel_edit env ct tc n ty p ns par tp sd d reason log))
     = (if json = [] then log else log @ [edit_channel (channel_id tc) json reason])"
    using assms by (simp add: TextChannel_edit_def edit_channel_request_log)
  note ki = TextChannel_body_key_iff [of n ty p ns par tp sd d, folded json]
  note di = TextChannel_body_distinct [of n ty p ns par tp sd d, folded json]
  from ki di v1 v2 v3 out show ?thesis by (simp only: simp_thms)
qed

lemma VoiceChannel_part:
  assumes "VoiceChannel_edit_json n p b par r u v = Inr json"
  shows "(''name'' \<in> set (keys json) \<longleftrightarrow> n \<noteq> EMPTY) \<and>
   (''position'' \<in> set (keys json) \<longleftrightarrow> p \<noteq> EMPTY) \<and>
   (''bitrate'' \<in> set (keys json) \<longleftrightarrow> b \<noteq> EMPTY) \<and>
   (''parent_id'' \<in> set (keys json) \<longleftrightarrow> par \<noteq> EMPTY) \<and>
   (''rtc_region'' \<in> set (keys json) \<longleftrightarrow> r \<noteq> EMPTY) \<and>
   (''user_limit'' \<in> set (keys json) \<longleftrightarrow> u \<noteq> EMPTY) \<and>
   (''video_quality_mode'' \<in> set (keys json) \<longleftrightarrow> v \<noteq> EMPTY) \<and>
   set (keys json) \<subseteq> {''name'', ''position'', ''bitrate'', ''parent_id'', ''rtc_region'',
         ''user_limit'', ''video_quality_mode''} \<and>
   distinct (keys json) \<and>
   (r = Given None \<longrightarrow> map_of json ''rtc_region'' = Some JNull) \<and>
   (u = Given None \<longrightarrow> map_of json ''user_limit'' = Some (JInt 0)) \<and>
   (par = Given None \<longrightarrow> map_of json ''parent_id'' = Some JNull) \<and>
   snd (snd (VoiceChannel_edit env vc n p b par r u v reason log))
     = (if json = [] then log else log @ [edit_channel (channel_id vc) json reason])"
proof -
  from assms have json: "json = VoiceChannel_body n p b par r u v"
    by (simp add: VoiceChannel_edit_json_eq split: if_split_asm)
  have v1: "r = Given None \<longrightarrow> map_of json ''rtc_region'' = Some JNull"
    by (simp add: json VoiceChannel_body_def map_of_put_other map_of_put_same optional_str_def)
  have v2: "u = Given None \<longrightarrow> map_of json ''user_limit'' = Some (JInt 0)"
    by (simp add: json VoiceChannel_body_def map_of_put_other map_of_put_same none_as_zero_def)
  have v3: "par = Given None \<longrightarrow> map_of json ''parent_id'' = Some JNull"
    by (simp add: json VoiceChannel_body_def map_of_put_other map_of_put_same parent_id_of_def)
  have out: "snd (snd (VoiceChannel_edit env vc n p b par r u v reason log))
     = (if json = [] then log else log @ [edit_channel (channel_id vc) json reason])"
    using assms by (simp add: VoiceChannel_edit_def edit_channel_request_log)
  note ki = VoiceChannel_body_key_iff [of n p b par r u v, folded json]
  note di = VoiceChannel_body_distinct [of n p b par r u v, folded json]
  from ki di v1 v2 v3 out show ?thesis by (simp only: simp_thms)
qed

lemma CategoryChannel_part:
  assumes "CategoryChannel_edit_json n p = Inr json"
  shows "(''name'' \<in> set (keys json) \<longleftrightarrow> n \<noteq> EMPTY) \<and>
   (''position'' \<in> set (keys json) \<longleftrightarrow> p \<noteq> EMPTY) \<and>
   set (keys json) \<subseteq> {''name'', ''position''} \<and>
   distinct (keys json) \<and>
   snd (snd (CategoryChannel_edit env cc n p reason log))
     = (if json = [] then log else log @ [edit_channel (channel_id cc) json reason])"
proof -
  from assms have json: "json = put ''position'' JInt p (put ''name'' JStr n [])"
    by (simp add: CategoryChannel_edit_json_eq)
  have k: "set (keys json) = (if n = EMPTY then {} else {''name''}) \<union>
             (if p = EMPTY then {} else {''position''})"
    unfolding json keys_put keys_Nil by (simp only: Un_ac list.set Un_empty_right Un_empty_left)
  have d: "distinct (keys json)"
    unfolding json by (intro distinct_keys_put) (simp add: keys_Nil)
  have out: "snd (snd (CategoryChannel_edit env cc n p reason log))
     = (if json = [] then log else log @ [edit_channel (channel_id cc) json reason])"
    using assms by (simp add: CategoryChannel_edit_def edit_channel_request_log)
  from d out show ?thesis
    unfolding k by (simp add: mem_if_single subset_iff)
qed

lemma GuildMember_edit_log:
  "snd (snd (GuildMember_edit env guild m nk rs mu de tu reason log))
     = (if GuildMember_edit_json env nk rs mu de tu = [] then log
        else log @ [edit_guild_member (guild_id guild) (user_id (user m))
                      (GuildMember_edit_json env nk rs mu de tu) reason])"
  by (auto simp: GuildMember_edit_def Let_def split: sum.splits option.splits prod.splits)

lemma GuildMember_part:
  "GuildMember_edit_json env nk rs mu de tu = json \<longrightarrow>
   (''nick'' \<in> set (keys json) \<longleftrightarrow> nk \<noteq> EMPTY) \<and>
   (''roles'' \<in> set (keys json) \<longleftrightarrow> rs \<noteq> EMPTY) \<and>
   (''mute'' \<in> set (keys json) \<longleftrightarrow> mu \<noteq> EMPTY) \<and>
   (''deaf'' \<in> set (keys json) \<longleftrightarrow> de \<noteq> EMPTY) \<and>
   (''communication_disabled_until'' \<in> set (keys json) \<longleftrightarrow> tu \<noteq> EMPTY) \<and>
   set (keys json) \<subseteq> {''nick'', ''roles'', ''mute'', ''deaf'', ''communication_disabled_until''} \<and>
   distinct (keys json) \<and>
   (nk = Given None \<longrightarrow> map_of json ''nick'' = Some JNull) \<and>
   (rs = Given None \<longrightarrow> map_of json ''roles'' = Some (JList [])) \<and>
   (tu = Given None \<longrightarrow> map_of json ''communication_disabled_until'' = Some JNull) \<and>
   snd (snd (GuildMember_edit env guild m nk rs mu de tu reason log))
     = (if json = [] then log
        else log @ [edit_guild_member (guild_id guild) (user_id (user m)) json reason])"
proof
  assume json: "GuildMember_edit_json env nk rs mu de tu = json"
  have k: "set (keys json) =
             (if nk = EMPTY then {} else {''nick''}) \<union>
             ((if rs = EMPTY then {} else {''roles''}) \<union>
             ((if mu = EMPTY then {} else {''mute''}) \<union>
             ((if de = EMPTY then {} else {''deaf''}) \<union>
             (if tu = EMPTY then {} else {''communication_disabled_until''}))))"
    unfolding json [symmetric] GuildMember_edit_json_def Let_def keys_put keys_Nil
    by (simp only: Un_ac list.set Un_empty_right Un_empty_left)
  have d: "distinct (keys json)"
    unfolding json [symmetric] GuildMember_edit_json_def Let_def
    by (intro distinct_keys_put) (simp add: keys_Nil)
  have v1: "nk = Given None \<longrightarrow> map_of json ''nick'' = Some JNull"
    by (simp add: json [symmetric] GuildMember_edit_json_def Let_def map_of_put_other
        map_of_put_same optional_str_def)
  have v2: "rs = Given None \<longrightarrow> map_of json ''roles'' = Some (JList [])"
    by (simp add: json [symmetric] GuildMember_edit_json_def Let_def map_of_put_other
        map_of_put_same)
  have v3: "tu = Given None \<longrightarrow> map_of json ''communication_disabled_until'' = Some JNull"
    by (simp add: json [symmetric] GuildMember_edit_json_def Let_def map_of_put_other
        map_of_put_same)
  have out: "snd (snd (GuildMember_edit env guild m nk rs mu de tu reason log))
     = (if json = [] then log
        else log @ [edit_guild_member (guild_id guild) (user_id (user m)) json reason])"
    by (simp only: GuildMember_edit_log json)
  have ki: "(''nick'' \<in> set (keys json) \<longleftrightarrow> nk \<noteq> EMPTY) \<and>
   (''roles'' \<in> set (keys json) \<longleftrightarrow> rs \<noteq> EMPTY) \<and>
   (''mute'' \<in> set (keys json) \<longleftrightarrow> mu \<noteq> EMPTY) \<and>
   (''deaf'' \<in> set (keys json) \<longleftrightarrow> de \<noteq> EMPTY) \<and>
   (''communication_disabled_until'' \<in> set (keys json) \<longleftrightarrow> tu \<noteq> EMPTY) \<and>
   set (keys json) \<subseteq> {''nick'', ''roles'', ''mute'', ''deaf'', ''communication_disabled_until''}"
    unfolding k by (simp add: mem_if_single subset_iff)
  from ki d v1 v2 v3 out
  show "(''nick'' \<in> set (keys json) \<longleftrightarrow> nk \<noteq> EMPTY) \<and>
   (''roles'' \<in> set (keys json) \<longleftrightarrow> rs \<noteq> EMPTY) \<and>
   (''mute'' \<in> set (keys json) \<longleftrightarrow> mu \<noteq> EMPTY) \<and>
   (''deaf'' \<in> set (keys json) \<longleftrightarrow> de \<noteq> EMPTY) \<and>
   (''communication_disabled_until'' \<in> set (keys json) \<longleftrightarrow> tu \<noteq> EMPTY) \<and>
   set (keys json) \<subseteq> {''nick'', ''roles'', ''mute'', ''deaf'', ''communication_disabled_until''} \<and>
   distinct (keys json) \<and>
   (nk = Given None \<longrightarrow> map_of json ''nick'' = Some JNull) \<and>
   (rs = Given None \<longrightarrow> map_of json ''roles'' = Some (JList [])) \<and>
   (tu = Given None \<longrightarrow> map_of json ''communication_disabled_until'' = Some JNull) \<and>
   snd (snd (GuildMember_edit env guild m nk rs mu de tu reason log))
     = (if json = [] then log
        else log @ [edit_guild_member (guild_id guild) (user_id (user m)) json reason])"
    by (simp only: simp_thms)
qed

lemmas single_simps =
  TextChannel_edit_json_eq TextChannel_body_def VoiceChannel_edit_json_eq VoiceChannel_body_def
  CategoryChannel_edit_json_eq GuildMember_edit_json_def Let_def put_EMPTY put_Given
  optional_str_def none_as_zero_def parent_id_of_def

text \<open>
  Claim C1. Whenever \<^verbatim>\<open>TextChannel.edit\<close>, \<^verbatim>\<open>VoiceChannel.edit\<close>,
  \<^verbatim>\<open>CategoryChannel.edit\<close> or \<^verbatim>\<open>GuildMember.edit\<close> has built its body (no validation
  error was raised), the body has the key of a field exactly when the caller passed
  something other than \<^verbatim>\<open>EMPTY\<close> for it, it has no other key and no key twice, and it is
  the body of the request that the method makes (no request when it is empty). An
  explicit \<^verbatim>\<open>None\<close> gives the key with the clearing value: null for \<^verbatim>\<open>topic\<close>,
  \<^verbatim>\<open>parent_id\<close>, \<^verbatim>\<open>rtc_region\<close>, \<^verbatim>\<open>nick\<close> and \<^verbatim>\<open>communication_disabled_until\<close>, 0 for
  \<^verbatim>\<open>rate_limit_per_user\<close> and \<^verbatim>\<open>user_limit\<close>, the empty list for \<^verbatim>\<open>roles\<close>. A call with
  exactly one field set to a value (a valid one, for the three validated fields) builds
  the body with exactly that key and value.
\<close>

theorem edit_body_keys:
  "(TextChannel_edit_json ct n ty p ns par tp sd d = Inr tjson \<longrightarrow>
      (''name'' \<in> set (keys tjson) \<longleftrightarrow> n \<noteq> EMPTY) \<and>
      (''type'' \<in> set (keys tjson) \<longleftrightarrow> ty \<noteq> EMPTY) \<and>
      (''position'' \<in> set (keys tjson) \<longleftrightarrow> p \<noteq> EMPTY) \<and>
      (''nsfw'' \<in> set (keys tjson) \<longleftrightarrow> ns \<noteq> EMPTY) \<and>
      (''parent_id'' \<in> set (keys tjson) \<longleftrightarrow> par \<noteq> EMPTY) \<and>
      (''topic'' \<in> set (keys tjson) \<longleftrightarrow> tp \<noteq> EMPTY) \<and>
      (''rate_limit_per_user'' \<in> set (keys tjson) \<longleftrightarrow> sd \<noteq> EMPTY) \<and>
      (''default_auto_archive_duration'' \<in> set (keys tjson) \<longleftrightarrow> d \<noteq> EMPTY) \<and>
      set (keys tjson) \<subseteq> {''name'', ''type'', ''position'', ''nsfw'', ''parent_id'', ''topic'',
            ''rate_limit_per_user'', ''default_auto_archive_duration''} \<and>
      distinct (keys tjson) \<and>
      (tp = Given None \<longrightarrow> map_of tjson ''topic'' = Some JNull) \<and>
      (sd = Given None \<longrightarrow> map_of tjson ''rate_limit_per_user'' = Some (JInt 0)) \<and>
      (par = Given None \<longrightarrow> map_of tjson ''parent_id'' = Some JNull) \<and>
      snd (snd (TextChannel_edit env ct tc n ty p ns par tp sd d reason log))
        = (if tjson = [] then log else log @ [edit_channel (channel_id tc) tjson reason])) \<and>
   (VoiceChannel_edit_json vn vp vb vpar vr vu vq = Inr vjson \<longrightarrow>
      (''name'' \<in> set (keys vjson) \<longleftrightarrow> vn \<noteq> EMPTY) \<and>
      (''position'' \<in> set (keys vjson) \<longleftrightarrow> vp \<noteq> EMPTY) \<and>
      (''bitrate'' \<in> set (keys vjson) \<longleftrightarrow> vb \<noteq> EMPTY) \<and>
      (''parent_id'' \<in> set (keys vjson) \<longleftrightarrow> vpar \<noteq> EMPTY) \<and>
      (''rtc_region'' \<in> set (keys vjson) \<longleftrightarrow> vr \<noteq> EMPTY) \<and>
      (''user_limit'' \<in> set (keys vjson) \<longleftrightarrow> vu \<noteq> EMPTY) \<and>
      (''video_quality_mode'' \<in> set (keys vjson) \<longleftrightarrow> vq \<noteq> EMPTY) \<and>
      set (keys vjson) \<subseteq> {''name'', ''position'', ''bitrate'', ''parent_id'', ''rtc_region'',
            ''user_limit'', ''video_quality_mode''} \<and>
      distinct (keys vjson) \<and>
      (vr = Given None \<longrightarrow> map_of vjson ''rtc_region'' = Some JNull) \<and>
      (vu = Given None \<longrightarrow> map_of vjson ''user_limit'' = Some (JInt 0)) \<and>
      (vpar = Given None \<longrightarrow> map_of vjson ''parent_id'' = Some JNull) \<and>
      snd (snd (VoiceChannel_edit env vc vn vp vb vpar vr vu vq reason log))
        = (if vjson = [] then log else log @ [edit_channel (channel_id vc) vjson reason])) \<and>
   (CategoryChannel_edit_json cn cp = Inr cjson \<longrightarrow>
      (''name'' \<in> set (keys cjson) \<longleftrightarrow> cn \<noteq> EMPTY) \<and>
      (''position'' \<in> set (keys cjson) \<longleftrightarrow> cp \<noteq> EMPTY) \<and>
      set (keys cjson) \<subseteq> {''name'', ''position''} \<and>
      distinct (keys cjson) \<and>
      snd (snd (CategoryChannel_edit env cc cn cp reason log))
        = (if cjson = [] then log else log @ [edit_channel (channel_id cc) cjson reason])) \<and>
   (GuildMember_edit_json env nk rs mu de tu = mjson \<longrightarrow>
      (''nick'' \<in> set (keys mjson) \<longleftrightarrow> nk \<noteq> EMPTY) \<and>
      (''roles'' \<in> set (keys mjson) \<longleftrightarrow> rs \<noteq> EMPTY) \<and>
      (''mute'' \<in> set (keys mjson) \<longleftrightarrow> mu \<noteq> EMPTY) \<and>
      (''deaf'' \<in> set (keys mjson) \<longleftrightarrow> de \<noteq> EMPTY) \<and>
      (''communication_disabled_until'' \<in> set (keys mjson) \<longleftrightarrow> tu \<noteq> EMPTY) \<and>
      set (keys mjson)
        \<subseteq> {''nick'', ''roles'', ''mute'', ''deaf'', ''communication_disabled_until''} \<and>
      distinct (keys mjson) \<and>
      (nk = Given None \<longrightarrow> map_of mjson ''nick'' = Some JNull) \<and>
      (rs = Given None \<longrightarrow> map_of mjson ''roles'' = Some (JList [])) \<and>
      (tu = Given None \<longrightarrow> map_of mjson ''communication_disabled_until'' = Some JNull) \<and>
      snd (snd (GuildMember_edit env guild m nk rs mu de tu reason log))
        = (if mjson = [] then log
           else log @ [edit_guild_member (guild_id guild) (user_id (user m)) mjson reason])) \<and>
   TextChannel_edit_json ct (Given x) EMPTY EMPTY EMPTY EMPTY EMPTY EMPTY EMPTY
     = Inr [(''name'', JStr x)] \<and>
   (t = NEWS ct \<or> t = TEXT ct \<longrightarrow>
      TextChannel_edit_json ct EMPTY (Given t) EMPTY EMPTY EMPTY EMPTY EMPTY EMPTY
        = Inr [(''type'', JInt t)]) \<and>
   TextChannel_edit_json ct EMPTY EMPTY (Given i) EMPTY EMPTY EMPTY EMPTY EMPTY
     = Inr [(''position'', JInt i)] \<and>
   TextChannel_edit_json ct EMPTY EMPTY EMPTY (Given f) EMPTY EMPTY EMPTY EMPTY
     = Inr [(''nsfw'', JBool f)] \<and>
   TextChannel_edit_json ct EMPTY EMPTY EMPTY EMPTY (Given (Some c)) EMPTY EMPTY EMPTY
     = Inr [(''parent_id'', JInt (channel_id c))] \<and>
   TextChannel_edit_json ct EMPTY EMPTY EMPTY EMPTY EMPTY (Given (Some s)) EMPTY EMPTY
     = Inr [(''topic'', JStr s)] \<and>
   TextChannel_edit_json ct EMPTY EMPTY EMPTY EMPTY EMPTY EMPTY (Given (Some k)) EMPTY
     = Inr [(''rate_limit_per_user'', JInt k)] \<and>
   (a \<in> {60, 1440, 4320, 10080} \<longrightarrow>
      TextChannel_edit_json ct EMPTY EMPTY EMPTY EMPTY EMPTY EMPTY EMPTY (Given a)
        = Inr [(''default_auto_archive_duration'', JInt a)]) \<and>
   VoiceChannel_edit_json (Given x) EMPTY EMPTY EMPTY EMPTY EMPTY EMPTY
     = Inr [(''name'', JStr x)] \<and>
   VoiceChannel_edit_json EMPTY (Given i) EMPTY EMPTY EMPTY EMPTY EMPTY
     = Inr [(''position'', JInt i)] \<and>
   (8000 \<le> b \<and> b \<le> 128000 \<longrightarrow>
      VoiceChannel_edit_json EMPTY EMPTY (Given b) EMPTY EMPTY EMPTY EMPTY
        = Inr [(''bitrate'', JInt b)]) \<and>
   VoiceChannel_edit_json EMPTY EMPTY EMPTY (Given (Some c)) EMPTY EMPTY EMPTY
     = Inr [(''parent_id'', JInt (channel_id c))] \<and>
   VoiceChannel_edit_json EMPTY EMPTY EMPTY EMPTY (Given (Some s)) EMPTY EMPTY
     = Inr [(''rtc_region'', JStr s)] \<and>
   VoiceChannel_edit_json EMPTY EMPTY EMPTY EMPTY EMPTY (Given (Some k)) EMPTY
     = Inr [(''user_limit'', JInt k)] \<and>
   VoiceChannel_edit_json EMPTY EMPTY EMPTY EMPTY EMPTY EMPTY (Given q)
     = Inr [(''video_quality_mode'', JInt q)] \<and>
   CategoryChannel_edit_json (Given x) EMPTY = Inr [(''name'', JStr x)] \<and>
   CategoryChannel_edit_json EMPTY (Given i) = Inr [(''position'', JInt i)] \<and>
   GuildMember_edit_json env (Given (Some s)) EMPTY EMPTY EMPTY EMPTY = [(''nick'', JStr s)] \<and>
   GuildMember_edit_json env EMPTY (Given (Some rl)) EMPTY EMPTY EMPTY
     = [(''roles'', JList (map (\<lambda>role. JInt (role_id role)) rl))] \<and>
   GuildMember_edit_json env EMPTY EMPTY (Given f) EMPTY EMPTY = [(''mute'', JBool f)] \<and>
   GuildMember_edit_json env EMPTY EMPTY EMPTY (Given f) EMPTY = [(''deaf'', JBool f)] \<and>
   GuildMember_edit_json env EMPTY EMPTY EMPTY EMPTY (Given (Some w))
     = [(''communication_disabled_until'', JStr (isoformat env w))]"
  apply (intro conjI)
  subgoal by (rule impI) (erule TextChannel_part)
  subgoal by (rule impI) (erule VoiceChannel_part)
  subgoal by (rule impI) (erule CategoryChannel_part)
  subgoal by (rule GuildMember_part)
  by (simp_all add: single_simps)


theorem edit_body_keys_witness:
  "TextChannel_edit_json discord_codes (Given ''general'') EMPTY EMPTY EMPTY EMPTY (Given None)
       EMPTY EMPTY
     = Inr [(''name'', JStr ''general''), (''topic'', JNull)] \<and>
   ''name'' \<in> set (keys [(''name'', JStr ''general''), (''topic'', JNull)]) \<and>
   ''topic'' \<in> set (keys [(''name'', JStr ''general''), (''topic'', JNull)]) \<and>
   ''type'' \<notin> set (keys [(''name'', JStr ''general''), (''topic'', JNull)]) \<and>
   map_of [(''name'', JStr ''general''), (''topic'', JNull)] ''topic'' = Some JNull \<and>
   snd (snd (TextChannel_edit example_env discord_codes example_text (Given ''general'') EMPTY
               EMPTY EMPTY EMPTY (Given None) EMPTY EMPTY None []))
     = [edit_channel 7 [(''name'', JStr ''general''), (''topic'', JNull)] None]"
proof -
  have eq: "TextChannel_edit_json discord_codes (Given ''general'') EMPTY EMPTY EMPTY EMPTY
              (Given None) EMPTY EMPTY
            = Inr [(''name'', JStr ''general''), (''topic'', JNull)]"
    by (simp add: single_simps)
  have id: "channel_id example_text = 7"
    by (simp add: example_text_def)
  note inst = edit_body_keys [THEN conjunct1, rule_format, OF eq,
      where env = example_env and tc = example_text and reason = None and log = "[]"]
  from inst eq id show ?thesis by simp
qed

lemma VoiceChannel_bitrate_sent:
  assumes "8000 \<le> b" "b \<le> 128000"
  shows "\<exists>json. VoiceChannel_edit_json n p (Given b) par r u v = Inr json \<and>
              map_of json ''bitrate'' = Some (JInt b) \<and>
              snd (snd (VoiceChannel_edit env vc n p (Given b) par r u v reason log))
                = log @ [edit_channel (channel_id vc) json reason]"
proof -
  define json where "json = VoiceChannel_body n p (Given b) par r u v"
  from assms have j: "VoiceChannel_edit_json n p (Given b) par r u v = Inr json"
    by (simp add: VoiceChannel_edit_json_eq json_def)
  have m: "map_of json ''bitrate'' = Some (JInt b)"
    by (simp add: json_def VoiceChannel_body_def map_of_put_other map_of_put_same)
  then have ne: "json \<noteq> []"
    by auto
  from j ne have "snd (snd (VoiceChannel_edit env vc n p (Given b) par r u v reason log))
                = log @ [edit_channel (channel_id vc) json reason]"
    by (simp add: VoiceChannel_edit_def edit_channel_request_log)
  with j m show ?thesis by blast
qed

text \<open>
  Claim C3. \<^verbatim>\<open>VoiceChannel.edit\<close> with an explicit bitrate ends with \<^verbatim>\<open>ValueError\<close>, the
  channel unchanged and no request made, exactly when the bitrate is below 8000 or above
  128000, whatever the other fields are. With a bitrate from 8000 to 128000 it builds a
  body that carries the bitrate and makes the \<^verbatim>\<open>edit_channel\<close> request with it.
\<close>

theorem VoiceChannel_edit_bitrate:
  "(VoiceChannel_edit env vc n p (Given b) par r u v reason log = (Inl ValueError, vc, log)
      \<longleftrightarrow> b < 8000 \<or> 128000 < b) \<and>
   (8000 \<le> b \<and> b \<le> 128000 \<longrightarrow>
      (\<exists>json. VoiceChannel_edit_json n p (Given b) par r u v = Inr json \<and>
              map_of json ''bitrate'' = Some (JInt b) \<and>
              snd (snd (VoiceChannel_edit env vc n p (Given b) par r u v reason log))
                = log @ [edit_channel (channel_id vc) json reason]))"
proof -
  have out: "VoiceChannel_edit env vc n p (Given b) par r u v reason log
               = (Inl ValueError, vc, log)" if "b < 8000 \<or> 128000 < b"
    using that by (auto simp: VoiceChannel_edit_def VoiceChannel_edit_json_eq)
  have "b < 8000 \<or> 128000 < b"
    if *: "VoiceChannel_edit env vc n p (Given b) par r u v reason log = (Inl ValueError, vc, log)"
  proof (rule ccontr)
    assume "\<not> (b < 8000 \<or> 128000 < b)"
    then have "8000 \<le> b" "b \<le> 128000" by auto
    from VoiceChannel_bitrate_sent [OF this, of n p par r u v env vc reason log] *
    show False by auto
  qed
  with out VoiceChannel_bitrate_sent show ?thesis by blast
qed

theorem VoiceChannel_edit_bitrate_witness:
  "VoiceChannel_edit example_env example_voice EMPTY EMPTY (Given 7999) EMPTY EMPTY EMPTY EMPTY
       None []
     = (Inl ValueError, example_voice, []) \<and>
   VoiceChannel_edit example_env example_voice EMPTY EMPTY (Given 128001) EMPTY EMPTY EMPTY EMPTY
       None []
     = (Inl ValueError, example_voice, []) \<and>
   snd (snd (VoiceChannel_edit example_env example_voice EMPTY EMPTY (Given 8000) EMPTY EMPTY
               EMPTY EMPTY None []))
     = [edit_channel 8 [(''bitrate'', JInt 8000)] None] \<and>
   snd (snd (VoiceChannel_edit example_env example_voice EMPTY EMPTY (Given 128000) EMPTY EMPTY
               EMPTY EMPTY None []))
     = [edit_channel 8 [(''bitrate'', JInt 128000)] None]"
proof -
  have id: "channel_id example_voice = 8"
    by (simp add: example_voice_def)
  have lo: "VoiceChannel_edit_json EMPTY EMPTY (Given 8000) EMPTY EMPTY EMPTY EMPTY
              = Inr [(''bitrate'', JInt 8000)]"
    and hi: "VoiceChannel_edit_json EMPTY EMPTY (Given 128000) EMPTY EMPTY EMPTY EMPTY
              = Inr [(''bitrate'', JInt 128000)]"
    by (simp_all add: single_simps)
  note t = VoiceChannel_edit_bitrate [where env = example_env and vc = example_voice
      and n = EMPTY and p = EMPTY and par = EMPTY and r = EMPTY and u = EMPTY and v = EMPTY
      and reason = None and log = "[]"]
  from t [of 7999] have 1: "VoiceChannel_edit example_env example_voice EMPTY EMPTY (Given 7999)
       EMPTY EMPTY EMPTY EMPTY None [] = (Inl ValueError, example_voice, [])"
    by simp
  from t [of 128001] have 2: "VoiceChannel_edit example_env example_voice EMPTY EMPTY
       (Given 128001) EMPTY EMPTY EMPTY EMPTY None [] = (Inl ValueError, example_voice, [])"
    by simp
  from t [of 8000] lo id have 3: "snd (snd (VoiceChannel_edit example_env example_voice EMPTY
       EMPTY (Given 8000) EMPTY EMPTY EMPTY EMPTY None []))
     = [edit_channel 8 [(''bitrate'', JInt 8000)] None]"
    by auto
  from t [of 128000] hi id have 4: "snd (snd (VoiceChannel_edit example_env example_voice EMPTY
       EMPTY (Given 128000) EMPTY EMPTY EMPTY EMPTY None []))
     = [edit_channel 8 [(''bitrate'', JInt 128000)] None]"
    by auto
  from 1 2 3 4 show ?thesis by (intro conjI)
qed

section \<open>The validation of \<^verbatim>\<open>TextChannel.edit\<close>\<close>

lemma TextChannel_edit_raise:
  "(\<exists>t. ty = Given t \<and> t \<noteq> NEWS ct \<and> t \<noteq> TEXT ct) \<or>
   (\<exists>a. d = Given a \<and> a \<notin> {60, 1440, 4320, 10080}) \<Longrightarrow>
     TextChannel_edit env ct tc n ty p ns par tp sd d reason log = (Inl ValueError, tc, log)"
  by (simp add: TextChannel_edit_def TextChannel_edit_json_eq)

lemma TextChannel_null_slowmode:
  assumes "TextChannel_edit_json ct n ty p ns par tp (Given None) d = Inr json"
  shows "map_of json ''rate_limit_per_user'' = Some (JInt 0)"
    and "snd (snd (TextChannel_edit env ct tc n ty p ns par tp (Given None) d reason log))
           = log @ [edit_channel (channel_id tc) json reason]"
proof -
  from assms have json: "json = TextChannel_body n ty p ns par tp (Given None) d"
    by (simp add: TextChannel_edit_json_eq split: if_split_asm)
  show m: "map_of json ''rate_limit_per_user'' = Some (JInt 0)"
    by (simp add: json TextChannel_body_def map_of_put_other map_of_put_same none_as_zero_def)
  then have "json \<noteq> []" by auto
  with assms
  show "snd (snd (TextChannel_edit env ct tc n ty p ns par tp (Given None) d reason log))
           = log @ [edit_channel (channel_id tc) json reason]"
    by (simp add: TextChannel_edit_def edit_channel_request_log)
qed

text \<open>
  Claim C4. \<^verbatim>\<open>TextChannel.edit\<close> raises \<^verbatim>\<open>ValueError\<close>, with no request made and the
  channel unchanged, when a given \<^verbatim>\<open>type\<close> is neither \<^verbatim>\<open>NEWS\<close> nor \<^verbatim>\<open>TEXT\<close>, and when
  a given \<^verbatim>\<open>default_auto_archive_duration\<close> is not one of 60, 1440, 4320 and 10080.
  Building the body raises in these two cases and in no other, so that
  \<^verbatim>\<open>slowmode_delay=None\<close> is not an error: the body then has 0 under
  \<^verbatim>\<open>rate_limit_per_user\<close>, and it is sent.
\<close>

theorem TextChannel_edit_validation:
  "(t \<noteq> NEWS ct \<and> t \<noteq> TEXT ct \<longrightarrow>
      TextChannel_edit env ct tc n (Given t) p ns par tp sd d reason log
        = (Inl ValueError, tc, log)) \<and>
   (a \<notin> {60, 1440, 4320, 10080} \<longrightarrow>
      TextChannel_edit env ct tc n ty p ns par tp sd (Given a) reason log
        = (Inl ValueError, tc, log)) \<and>
   ((\<exists>e. TextChannel_edit_json ct n ty p ns par tp sd d = Inl e) \<longleftrightarrow>
      (\<exists>t. ty = Given t \<and> t \<noteq> NEWS ct \<and> t \<noteq> TEXT ct) \<or>
      (\<exists>a. d = Given a \<and> a \<notin> {60, 1440, 4320, 10080})) \<and>
   (\<forall>json. TextChannel_edit_json ct n ty p ns par tp (Given None) d = Inr json \<longrightarrow>
      map_of json ''rate_limit_per_user'' = Some (JInt 0) \<and>
      snd (snd (TextChannel_edit env ct tc n ty p ns par tp (Given None) d reason log))
        = log @ [edit_channel (channel_id tc) json reason]) \<and>
   TextChannel_edit_json ct EMPTY EMPTY EMPTY EMPTY EMPTY EMPTY (Given None) EMPTY
     = Inr [(''rate_limit_per_user'', JInt 0)]"
proof (intro conjI)
  show "t \<noteq> NEWS ct \<and> t \<noteq> TEXT ct \<longrightarrow>
      TextChannel_edit env ct tc n (Given t) p ns par tp sd d reason log
        = (Inl ValueError, tc, log)"
    by (simp add: TextChannel_edit_raise)
  show "a \<notin> {60, 1440, 4320, 10080} \<longrightarrow>
      TextChannel_edit env ct tc n ty p ns par tp sd (Given a) reason log
        = (Inl ValueError, tc, log)"
    by (simp add: TextChannel_edit_raise)
  show "(\<exists>e. TextChannel_edit_json ct n ty p ns par tp sd d = Inl e) \<longleftrightarrow>
      (\<exists>t. ty = Given t \<and> t \<noteq> NEWS ct \<and> t \<noteq> TEXT ct) \<or>
      (\<exists>a. d = Given a \<and> a \<notin> {60, 1440, 4320, 10080})"
    by (simp add: TextChannel_edit_json_eq)
  show "\<forall>json. TextChannel_edit_json ct n ty p ns par tp (Given None) d = Inr json \<longrightarrow>
      map_of json ''rate_limit_per_user'' = Some (JInt 0) \<and>
      snd (snd (TextChannel_edit env ct tc n ty p ns par tp (Given None) d reason log))
        = log @ [edit_channel (channel_id tc) json reason]"
    by (intro allI impI conjI) (erule TextChannel_null_slowmode)+
  show "TextChannel_edit_json ct EMPTY EMPTY EMPTY EMPTY EMPTY EMPTY (Given None) EMPTY
     = Inr [(''rate_limit_per_user'', JInt 0)]"
    by (simp add: single_simps)
qed

theorem TextChannel_edit_validation_witness:
  "TextChannel_edit example_env discord_codes example_text EMPTY (Given 2) EMPTY EMPTY EMPTY
       EMPTY EMPTY EMPTY None []
     = (Inl ValueError, example_text, []) \<and>
   TextChannel_edit example_env discord_codes example_text EMPTY EMPTY EMPTY EMPTY EMPTY
       EMPTY EMPTY (Given 120) None []
     = (Inl ValueError, example_text, []) \<and>
   TextChannel_edit_json discord_codes EMPTY EMPTY EMPTY EMPTY EMPTY EMPTY EMPTY (Given 1440)
     = Inr [(''default_auto_archive_duration'', JInt 1440)] \<and>
   snd (snd (TextChannel_edit example_env discord_codes example_text EMPTY EMPTY EMPTY EMPTY
               EMPTY EMPTY (Given None) EMPTY None []))
     = [edit_channel 7 [(''rate_limit_per_user'', JInt 0)] None]"
proof -
  have id: "channel_id example_text = 7"
    by (simp add: example_text_def)
  have ty: "(2::int) \<noteq> NEWS discord_codes \<and> 2 \<noteq> TEXT discord_codes"
    by (simp add: discord_codes_def)
  have du: "(120::int) \<notin> {60, 1440, 4320, 10080}"
    by simp
  have ok: "TextChannel_edit_json discord_codes EMPTY EMPTY EMPTY EMPTY EMPTY EMPTY EMPTY
              (Given 1440) = Inr [(''default_auto_archive_duration'', JInt 1440)]"
    by (simp add: single_simps)
  note t = TextChannel_edit_validation [where env = example_env and ct = discord_codes
      and tc = example_text and n = EMPTY and p = EMPTY and ns = EMPTY and par = EMPTY
      and tp = EMPTY and reason = None and log = "[]"]
  from t [where t = 2 and sd = EMPTY and d = EMPTY] ty
  have 1: "TextChannel_edit example_env discord_codes example_text EMPTY (Given 2) EMPTY EMPTY
       EMPTY EMPTY EMPTY EMPTY None [] = (Inl ValueError, example_text, [])"
    by blast
  from t [where a = 120 and sd = EMPTY and ty = EMPTY] du
  have 2: "TextChannel_edit example_env discord_codes example_text EMPTY EMPTY EMPTY EMPTY EMPTY
       EMPTY EMPTY (Given 120) None [] = (Inl ValueError, example_text, [])"
    by blast
  from t [where ty = EMPTY and d = EMPTY] id
  have 3: "snd (snd (TextChannel_edit example_env discord_codes example_text EMPTY EMPTY EMPTY
               EMPTY EMPTY EMPTY (Given None) EMPTY None []))
     = [edit_channel 7 [(''rate_limit_per_user'', JInt 0)] None]"
    by simp
  from 1 2 ok 3 show ?thesis by (intro conjI)
qed

section \<open>Hydration of a member\<close>

lemma example_int_digits:
  "example_int (JStr ''42'') = Inr 42"
  "example_int (JStr ''2'') = Inr 2"
  "example_int (JStr ''3'') = Inr 3"
  by (simp_all add: example_int_def strip_def is_space_def is_digit_def Let_def)

lemma resolve_roles_eq:
  "resolve_roles g ids acc = acc @ map (get_role g) ids"
  by (induction ids arbitrary: acc) (simp_all add: Let_def)

lemma GuildMember_update_roles:
  assumes "GuildMember_update_with_data env g data m = (r, m')"
  shows "r = None \<longrightarrow>
            (\<exists>items. iter (get data ''roles'' (JList [])) = Inr items \<and>
                     int_each env items = Inr (role_ids m')) \<and>
            roles m' = map (get_role g) (role_ids m')"
    and "r \<noteq> None \<longrightarrow> role_ids m' = role_ids m \<and> roles m' = roles m"
  using assms
  by (auto simp add: GuildMember_update_with_data_def attempt_def Let_def resolve_roles_eq
      split: sum.splits)

lemma GuildMember_update_outcome:
  "fst (GuildMember_update_with_data env g data m)
     = fst (GuildMember_update_with_data env g' data m)"
  by (simp add: GuildMember_update_with_data_def attempt_def Let_def split: sum.splits)

lemma example_hydration:
  "GuildMember_update_with_data example_env example_guild example_payload unset
     = (None, hydrated_member)"
  "GuildMember_update_with_data answering_env example_guild example_payload example_member
     = (None, hydrated_member)"
  by (simp_all add: GuildMember_update_with_data_def attempt_def Let_def getitem_def get_def
      example_payload_def example_env_def answering_env_def example_user_def
      example_int_digits example_timestamp_def parse_optional_timestamp_def
      example_guild_def unset_def example_member_def hydrated_member_def)

lemma either_roles:
  assumes "GuildMember_update_with_data env g data m = (r, m')"
  shows "(role_ids m' = role_ids m \<and> roles m' = roles m) \<or>
         roles m' = map (get_role g) (role_ids m')"
  using GuildMember_update_roles [OF assms] by (cases r) simp_all

lemma GuildMember_edit_roles:
  "(role_ids (fst (snd (GuildMember_edit env g m n rs mu d t reason log))) = role_ids m \<and>
    roles (fst (snd (GuildMember_edit env g m n rs mu d t reason log))) = roles m) \<or>
   roles (fst (snd (GuildMember_edit env g m n rs mu d t reason log)))
     = map (get_role g) (role_ids (fst (snd (GuildMember_edit env g m n rs mu d t reason log))))"
proof -
  define json where "json = GuildMember_edit_json env n rs mu d t"
  define call where "call = edit_guild_member (guild_id g) (user_id (user m)) json reason"
  show ?thesis
  proof (cases "json \<noteq> []")
    case False
    then show ?thesis by (simp add: GuildMember_edit_def json_def)
  next
    case True
    show ?thesis
    proof (cases "rest env log call")
      case (Inl e)
      with True show ?thesis
        by (simp add: GuildMember_edit_def Let_def flip: json_def call_def)
    next
      case (Inr resp)
      show ?thesis
      proof (cases resp)
        case None
        with True Inr show ?thesis
          by (simp add: GuildMember_edit_def Let_def flip: json_def call_def)
      next
        case (Some data)
        obtain r m' where u: "GuildMember_update_with_data env g data m = (r, m')"
          by (cases "GuildMember_update_with_data env g data m")
        have m': "fst (snd (GuildMember_edit env g m n rs mu d t reason log)) = m'"
          using True Inr Some u
          by (cases r) (simp_all add: GuildMember_edit_def Let_def flip: json_def call_def)
        show ?thesis
          unfolding m' by (rule either_roles [OF u])
      qed
    qed
  qed
qed

section \<open>Adding roles one by one\<close>

lemma add_roles_loop_success:
  "add_roles_loop env gid uid ex True reason rs ret log = (Inr out, log') \<Longrightarrow>
     out = ret @ filter (\<lambda>r. role_id r \<notin> set ex) rs \<and>
     log' = log @ map (\<lambda>r. add_guild_member_role gid uid (role_id r) reason)
                    (filter (\<lambda>r. role_id r \<notin> set ex) rs)"
proof (induction rs arbitrary: ret log)
  case Nil
  then show ?case by simp
next
  case (Cons r rs)
  show ?case
  proof (cases "role_id r \<in> set ex")
    case True
    with Cons.prems have "add_roles_loop env gid uid ex True reason rs ret log = (Inr out, log')"
      by simp
    from Cons.IH [OF this] True show ?thesis by simp
  next
    case False
    from False Cons.prems obtain resp where
      "rest env log (add_guild_member_role gid uid (role_id r) reason) = Inr resp"
      by (cases "rest env log (add_guild_member_role gid uid (role_id r) reason)")
        (simp_all add: Let_def)
    with False Cons.prems have
      "add_roles_loop env gid uid ex True reason rs (ret @ [r])
         (log @ [add_guild_member_role gid uid (role_id r) reason]) = (Inr out, log')"
      by (simp add: Let_def)
    from Cons.IH [OF this] False show ?thesis by simp
  qed
qed

lemma add_roles_loop_returns:
  "\<forall>l. \<forall>r \<in> set rs. \<exists>resp. rest env l (add_guild_member_role gid uid (role_id r) reason)
       = Inr resp \<Longrightarrow>
   add_roles_loop env gid uid ex True reason rs ret log
     = (Inr (ret @ filter (\<lambda>r. role_id r \<notin> set ex) rs),
        log @ map (\<lambda>r. add_guild_member_role gid uid (role_id r) reason)
                (filter (\<lambda>r. role_id r \<notin> set ex) rs))"
proof (induction rs arbitrary: ret log)
  case Nil
  then show ?case by simp
next
  case (Cons r rs)
  from Cons.prems have tl: "\<forall>l. \<forall>r \<in> set rs.
      \<exists>resp. rest env l (add_guild_member_role gid uid (role_id r) reason) = Inr resp"
    by simp
  from Cons.prems obtain resp where
    hd: "rest env log (add_guild_member_role gid uid (role_id r) reason) = Inr resp"
    by auto
  show ?case
    by (simp add: Cons.IH [OF tl] hd Let_def)
qed

lemma add_roles_loop_prefix:
  "\<exists>n. snd (add_roles_loop env gid uid ex True reason rs ret log)
         = log @ take n (map (\<lambda>r. add_guild_member_role gid uid (role_id r) reason)
                          (filter (\<lambda>r. role_id r \<notin> set ex) rs))"
proof (induction rs arbitrary: ret log)
  case Nil
  then show ?case by simp
next
  case (Cons r rs)
  let ?call = "add_guild_member_role gid uid (role_id r) reason"
  let ?rest = "map (\<lambda>r. add_guild_member_role gid uid (role_id r) reason)
                 (filter (\<lambda>r. role_id r \<notin> set ex) rs)"
  show ?case
  proof (cases "role_id r \<in> set ex")
    case True
    with Cons.IH [of ret log] show ?thesis by simp
  next
    case False
    show ?thesis
    proof (cases "rest env log ?call")
      case (Inl e)
      have "log @ [?call] = log @ take (Suc 0) (?call # ?rest)" by simp
      with False Inl show ?thesis
        by (intro exI [of _ "Suc 0"]) (simp add: Let_def)
    next
      case (Inr resp)
      from Cons.IH [of "ret @ [r]" "log @ [?call]"] obtain n where
        n: "snd (add_roles_loop env gid uid ex True reason rs (ret @ [r]) (log @ [?call]))
              = (log @ [?call]) @ take n ?rest"
        by blast
      from False Inr n show ?thesis
        by (intro exI [of _ "Suc n"]) (simp add: Let_def)
    qed
  qed
qed

text \<open>
  Claim C6. \<^verbatim>\<open>add_roles\<close> with \<^verbatim>\<open>overwrite\<close> false and \<^verbatim>\<open>ignore_extra\<close> true never
  changes the member. The requests that it makes are \<^verbatim>\<open>add_guild_member_role\<close> requests,
  one for each given role whose id is not among the member's \<^verbatim>\<open>role_ids\<close>, in the order
  in which the roles were given, and a request that raises ends the sequence. When the method
  returns, it has made all of them and returns exactly the given roles for which it made
  one; and it returns when none of the requests raises.
\<close>

theorem add_roles_one_call_per_new_role:
  "fst (snd (GuildMember_add_roles env g m rs False True reason log)) = m \<and>
   (\<exists>n. snd (snd (GuildMember_add_roles env g m rs False True reason log))
          = log @ take n
                    (map (\<lambda>r. add_guild_member_role (guild_id g) (user_id (user m)) (role_id r)
                                reason)
                       (filter (\<lambda>r. role_id r \<notin> set (role_ids m)) rs))) \<and>
   (\<forall>out. fst (GuildMember_add_roles env g m rs False True reason log) = Inr out \<longrightarrow>
      out = map Some (filter (\<lambda>r. role_id r \<notin> set (role_ids m)) rs) \<and>
      snd (snd (GuildMember_add_roles env g m rs False True reason log))
        = log @ map (\<lambda>r. add_guild_member_role (guild_id g) (user_id (user m)) (role_id r)
                            reason)
                  (filter (\<lambda>r. role_id r \<notin> set (role_ids m)) rs)) \<and>
   ((\<forall>l. \<forall>r \<in> set rs.
        \<exists>resp. rest env l (add_guild_member_role (guild_id g) (user_id (user m)) (role_id r)
                            reason) = Inr resp) \<longrightarrow>
      GuildMember_add_roles env g m rs False True reason log
        = (Inr (map Some (filter (\<lambda>r. role_id r \<notin> set (role_ids m)) rs)), m,
           log @ map (\<lambda>r. add_guild_member_role (guild_id g) (user_id (user m)) (role_id r)
                           reason)
                   (filter (\<lambda>r. role_id r \<notin> set (role_ids m)) rs)))"
proof -
  obtain res log' where
    loop: "add_roles_loop env (guild_id g) (user_id (user m)) (role_ids m) True reason rs []
             log = (res, log')"
    by (cases "add_roles_loop env (guild_id g) (user_id (user m)) (role_ids m) True reason rs []
                 log")
  have all: "GuildMember_add_roles env g m rs False True reason log
      = (case res of Inl e \<Rightarrow> Inl e | Inr ret \<Rightarrow> Inr (map Some ret), m, log')"
    by (simp add: GuildMember_add_roles_def Let_def loop split: sum.splits)
  have 1: "fst (snd (GuildMember_add_roles env g m rs False True reason log)) = m"
    by (simp add: all)
  from add_roles_loop_prefix [of env "guild_id g" "user_id (user m)" "role_ids m" reason rs
      "[]" log]
  have 2: "\<exists>n. snd (snd (GuildMember_add_roles env g m rs False True reason log))
          = log @ take n
                    (map (\<lambda>r. add_guild_member_role (guild_id g) (user_id (user m)) (role_id r)
                                reason)
                       (filter (\<lambda>r. role_id r \<notin> set (role_ids m)) rs))"
    by (simp add: all loop)
  have 3: "\<forall>out. fst (GuildMember_add_roles env g m rs False True reason log) = Inr out \<longrightarrow>
      out = map Some (filter (\<lambda>r. role_id r \<notin> set (role_ids m)) rs) \<and>
      snd (snd (GuildMember_add_roles env g m rs False True reason log))
        = log @ map (\<lambda>r. add_guild_member_role (guild_id g) (user_id (user m)) (role_id r)
                            reason)
                  (filter (\<lambda>r. role_id r \<notin> set (role_ids m)) rs)"
  proof (intro allI impI)
    fix out
    assume "fst (GuildMember_add_roles env g m rs False True reason log) = Inr out"
    then obtain ret where ret: "res = Inr ret" and out: "out = map Some ret"
      by (cases res) (auto simp add: all)
    from add_roles_loop_success [OF loop [unfolded ret]] out
    show "out = map Some (filter (\<lambda>r. role_id r \<notin> set (role_ids m)) rs) \<and>
      snd (snd (GuildMember_add_roles env g m rs False True reason log))
        = log @ map (\<lambda>r. add_guild_member_role (guild_id g) (user_id (user m)) (role_id r)
                            reason)
                  (filter (\<lambda>r. role_id r \<notin> set (role_ids m)) rs)"
      by (simp add: all)
  qed
  have 4: "(\<forall>l. \<forall>r \<in> set rs.
        \<exists>resp. rest env l (add_guild_member_role (guild_id g) (user_id (user m)) (role_id r)
                            reason) = Inr resp) \<longrightarrow>
      GuildMember_add_roles env g m rs False True reason log
        = (Inr (map Some (filter (\<lambda>r. role_id r \<notin> set (role_ids m)) rs)), m,
           log @ map (\<lambda>r. add_guild_member_role (guild_id g) (user_id (user m)) (role_id r)
                           reason)
                   (filter (\<lambda>r. role_id r \<notin> set (role_ids m)) rs))"
  proof
    assume "\<forall>l. \<forall>r \<in> set rs.
        \<exists>resp. rest env l (add_guild_member_role (guild_id g) (user_id (user m)) (role_id r)
                            reason) = Inr resp"
    from add_roles_loop_returns [OF this, of "role_ids m" "[]" log] loop
    show "GuildMember_add_roles env g m rs False True reason log
        = (Inr (map Some (filter (\<lambda>r. role_id r \<notin> set (role_ids m)) rs)), m,
           log @ map (\<lambda>r. add_guild_member_role (guild_id g) (user_id (user m)) (role_id r)
                           reason)
                   (filter (\<lambda>r. role_id r \<notin> set (role_ids m)) rs))"
      by (simp add: all)
  qed
  from 1 2 3 4 show ?thesis by (intro conjI)
qed

theorem add_roles_one_call_per_new_role_witness:
  "GuildMember_add_roles example_env example_guild example_member [role_a, role_b] False True
       None []
     = (Inr [Some role_b], example_member, [add_guild_member_role 10 42 2 None]) \<and>
   roles example_member = [Some role_a]"
proof -
  have r: "\<forall>l. \<forall>r \<in> set [role_a, role_b].
      \<exists>resp. rest example_env l
               (add_guild_member_role (guild_id example_guild) (user_id (user example_member))
                  (role_id r) None) = Inr resp"
    by (simp add: example_env_def)
  have v: "guild_id example_guild = 10" "user_id (user example_member) = 42"
    "role_ids example_member = [1]" "role_id role_a = 1" "role_id role_b = 2"
    "roles example_member = [Some role_a]"
    by (simp_all add: example_guild_def example_member_def unset_def role_a_def role_b_def)
  from add_roles_one_call_per_new_role [of example_env example_guild example_member
      "[role_a, role_b]" None "[]", THEN conjunct2, THEN conjunct2, THEN conjunct2,
      rule_format, OF r [rule_format]]
  show ?thesis
    by (simp add: v)
qed

section \<open>Removing all roles\<close>

lemma GuildMember_edit_json_no_roles:
  "GuildMember_edit_json env EMPTY (Given (Some [])) EMPTY EMPTY EMPTY = [(''roles'', JList [])]"
  by (simp add: single_simps)

text \<open>
  Claim C7. \<^verbatim>\<open>remove_roles\<close> called with no role does what \<^verbatim>\<open>edit(roles=[])\<close> does and
  then returns \<^verbatim>\<open>self.roles\<close>. The body of that edit is \<^verbatim>\<open>{"roles": []}\<close>, so the
  method makes one \<^verbatim>\<open>edit_guild_member\<close> request with this body, whatever
  \<^verbatim>\<open>ignore_extra\<close> is; when the request and the re-hydration of the member from its answer
  raise nothing, it returns the roles of the re-hydrated member. With the REST layer that
  answers \<open>example_payload\<close>, the member \<open>example_member\<close> becomes \<open>hydrated_member\<close>
  and its two role entries are returned.
\<close>

theorem remove_roles_without_roles:
  "GuildMember_edit_json env EMPTY (Given (Some [])) EMPTY EMPTY EMPTY
     = [(''roles'', JList [])] \<and>
   GuildMember_remove_roles env g m [] ie reason log
     = (case GuildMember_edit env g m EMPTY (Given (Some [])) EMPTY EMPTY EMPTY reason log of
          (Inl e, m', log') \<Rightarrow> (Inl e, m', log')
        | (Inr u, m', log') \<Rightarrow> (Inr (roles m'), m', log')) \<and>
   GuildMember_remove_roles env g m [] ie reason log
     = (case rest env log
               (edit_guild_member (guild_id g) (user_id (user m)) [(''roles'', JList [])]
                  reason) of
          Inl e \<Rightarrow>
            (Inl e, m,
             log @ [edit_guild_member (guild_id g) (user_id (user m)) [(''roles'', JList [])]
                      reason])
        | Inr None \<Rightarrow>
            (Inl TypeError, m,
             log @ [edit_guild_member (guild_id g) (user_id (user m)) [(''roles'', JList [])]
                      reason])
        | Inr (Some data) \<Rightarrow>
            (case GuildMember_update_with_data env g data m of
               (Some e, m') \<Rightarrow>
                 (Inl e, m',
                  log @ [edit_guild_member (guild_id g) (user_id (user m))
                           [(''roles'', JList [])] reason])
             | (None, m') \<Rightarrow>
                 (Inr (roles m'), m',
                  log @ [edit_guild_member (guild_id g) (user_id (user m))
                           [(''roles'', JList [])] reason]))) \<and>
   GuildMember_remove_roles answering_env example_guild example_member [] True None []
     = (Inr [Some role_b, None], hydrated_member,
        [edit_guild_member 10 42 [(''roles'', JList [])] None])"
proof (intro conjI)
  show "GuildMember_edit_json env EMPTY (Given (Some [])) EMPTY EMPTY EMPTY
     = [(''roles'', JList [])]"
    by (rule GuildMember_edit_json_no_roles)
  show "GuildMember_remove_roles env g m [] ie reason log
     = (case GuildMember_edit env g m EMPTY (Given (Some [])) EMPTY EMPTY EMPTY reason log of
          (Inl e, m', log') \<Rightarrow> (Inl e, m', log')
        | (Inr u, m', log') \<Rightarrow> (Inr (roles m'), m', log'))"
    by (simp add: GuildMember_remove_roles_def)
  show "GuildMember_remove_roles env g m [] ie reason log
     = (case rest env log
               (edit_guild_member (guild_id g) (user_id (user m)) [(''roles'', JList [])]
                  reason) of
          Inl e \<Rightarrow>
            (Inl e, m,
             log @ [edit_guild_member (guild_id g) (user_id (user m)) [(''roles'', JList [])]
                      reason])
        | Inr None \<Rightarrow>
            (Inl TypeError, m,
             log @ [edit_guild_member (guild_id g) (user_id (user m)) [(''roles'', JList [])]
                      reason])
        | Inr (Some data) \<Rightarrow>
            (case GuildMember_update_with_data env g data m of
               (Some e, m') \<Rightarrow>
                 (Inl e, m',
                  log @ [edit_guild_member (guild_id g) (user_id (user m))
                           [(''roles'', JList [])] reason])
             | (None, m') \<Rightarrow>
                 (Inr (roles m'), m',
                  log @ [edit_guild_member (guild_id g) (user_id (user m))
                           [(''roles'', JList [])] reason])))"
    by (simp add: GuildMember_remove_roles_def GuildMember_edit_def
        GuildMember_edit_json_no_roles Let_def split: sum.splits option.splits prod.splits)
  have v: "guild_id example_guild = 10" "user_id (user example_member) = 42"
    "roles hydrated_member = [Some role_b, None]"
    "rest answering_env = (\<lambda>log call. Inr (Some example_payload))"
    by (simp_all add: example_guild_def example_member_def unset_def hydrated_member_def
        answering_env_def)
  show "GuildMember_remove_roles answering_env example_guild example_member [] True None []
     = (Inr [Some role_b, None], hydrated_member,
        [edit_guild_member 10 42 [(''roles'', JList [])] None])"
    by (simp add: GuildMember_remove_roles_def GuildMember_edit_def
        GuildMember_edit_json_no_roles Let_def v example_hydration)
qed

section \<open>The two role lists of a member\<close>

lemma GuildMember_update_role_ids:
  "role_ids (snd (GuildMember_update_with_data env g data m))
     = role_ids (snd (GuildMember_update_with_data env g' data m))"
  by (simp add: GuildMember_update_with_data_def attempt_def Let_def split: sum.splits)

lemma GuildMember_add_roles_member:
  "fst (snd (GuildMember_add_roles env g m rs ow ie reason log))
     = (if rs \<noteq> [] \<and> ow
        then fst (snd (GuildMember_edit env g m EMPTY (Given (Some rs)) EMPTY EMPTY EMPTY reason
                         log))
        else m)"
  by (simp add: GuildMember_add_roles_def Let_def split: prod.splits sum.splits)

lemma GuildMember_remove_roles_member:
  "fst (snd (GuildMember_remove_roles env g m rs ie reason log))
     = (if rs = []
        then fst (snd (GuildMember_edit env g m EMPTY (Given (Some [])) EMPTY EMPTY EMPTY reason
                         log))
        else m)"
  by (simp add: GuildMember_remove_roles_def Let_def split: prod.splits sum.splits)

lemma GuildMember_kick_member:
  "fst (snd (GuildMember_kick env g m reason log)) = m"
  by (simp add: GuildMember_kick_def Let_def split: sum.splits)

lemma GuildMember_edit_success:
  assumes "GuildMember_edit env g m n rs mu d t reason log = (Inr u, m1, log1)"
    and "GuildMember_edit_json env n rs mu d t \<noteq> []"
  shows "roles m1 = map (get_role g) (role_ids m1)"
proof -
  define call where
    "call = edit_guild_member (guild_id g) (user_id (user m))
              (GuildMember_edit_json env n rs mu d t) reason"
  from assms obtain data where data: "rest env log call = Inr (Some data)"
    by (cases "rest env log call")
      (auto simp add: GuildMember_edit_def Let_def call_def split: option.splits)
  obtain r m' where upd: "GuildMember_update_with_data env g data m = (r, m')"
    by (cases "GuildMember_update_with_data env g data m")
  from assms data upd have "r = None" and "m' = m1"
    by (cases r; simp add: GuildMember_edit_def Let_def flip: call_def)+
  with GuildMember_update_roles(1) [OF upd] show ?thesis by simp
qed

lemma GuildMember_init_roles:
  assumes "GuildMember_init env g data = Inr m1"
  shows "roles m1 = map (get_role g) (role_ids m1)"
proof -
  obtain r m' where upd: "GuildMember_update_with_data env g data unset = (r, m')"
    by (cases "GuildMember_update_with_data env g data unset")
  from assms upd have "r = None" and "m' = m1"
    by (cases r; simp add: GuildMember_init_def)+
  with GuildMember_update_roles(1) [OF upd] show ?thesis by simp
qed

lemma example_failed_hydration:
  "GuildMember_update_with_data example_env example_guild [] example_member
     = (Some KeyError, example_member)"
  by (simp add: GuildMember_update_with_data_def attempt_def getitem_def)

lemma example_init:
  "GuildMember_init example_env example_guild example_payload = Inr hydrated_member"
  by (simp add: GuildMember_init_def example_hydration)

lemma example_edit:
  "GuildMember_edit answering_env example_guild example_member (Given (Some ''nick'')) EMPTY
      EMPTY EMPTY EMPTY None []
     = (Inr (), hydrated_member,
        [edit_guild_member 10 42 [(''nick'', JStr ''nick'')] None])"
  "GuildMember_edit_json answering_env (Given (Some ''nick'')) EMPTY EMPTY EMPTY EMPTY
     = [(''nick'', JStr ''nick'')]"
proof -
  show j: "GuildMember_edit_json answering_env (Given (Some ''nick'')) EMPTY EMPTY EMPTY EMPTY
     = [(''nick'', JStr ''nick'')]"
    by (simp add: single_simps)
  have v: "guild_id example_guild = 10" "user_id (user example_member) = 42"
    "rest answering_env = (\<lambda>log call. Inr (Some example_payload))"
    by (simp_all add: example_guild_def example_member_def unset_def answering_env_def)
  show "GuildMember_edit answering_env example_guild example_member (Given (Some ''nick'')) EMPTY
      EMPTY EMPTY EMPTY None []
     = (Inr (), hydrated_member,
        [edit_guild_member 10 42 [(''nick'', JStr ''nick'')] None])"
    by (simp add: GuildMember_edit_def j Let_def v example_hydration)
qed

text \<open>
  Claim C9. When \<^verbatim>\<open>_update_with_data\<close> returns, in \<^verbatim>\<open>__init__\<close> or in the re-hydration
  of \<^verbatim>\<open>edit\<close>, \<^verbatim>\<open>roles\<close> is the list of what \<^verbatim>\<open>get_role\<close> of the guild gave for the
  entries of \<^verbatim>\<open>role_ids\<close>, one for one and in their order, so the two lists have the same
  length. When it raises, both lists are still what they were. Each of \<^verbatim>\<open>edit\<close>,
  \<^verbatim>\<open>add_roles\<close> and \<^verbatim>\<open>remove_roles\<close>, whatever its outcome, leaves the two lists as they
  were or leaves them in this correspondence, and \<^verbatim>\<open>kick\<close> does not change the member.
\<close>

theorem roles_resolve_role_ids:
  "(GuildMember_update_with_data env g data m = (None, m1) \<longrightarrow>
      roles m1 = map (get_role g) (role_ids m1) \<and> length (roles m1) = length (role_ids m1)) \<and>
   (GuildMember_update_with_data env g data m = (Some e, m1) \<longrightarrow>
      role_ids m1 = role_ids m \<and> roles m1 = roles m) \<and>
   (GuildMember_init env g data = Inr m1 \<longrightarrow>
      roles m1 = map (get_role g) (role_ids m1) \<and> length (roles m1) = length (role_ids m1)) \<and>
   (GuildMember_edit env g m n rs mu d t reason log = (Inr u, m1, log1) \<longrightarrow>
    GuildMember_edit_json env n rs mu d t \<noteq> [] \<longrightarrow>
      roles m1 = map (get_role g) (role_ids m1) \<and> length (roles m1) = length (role_ids m1)) \<and>
   (let m' = fst (snd (GuildMember_edit env g m n rs mu d t reason log))
    in (role_ids m' = role_ids m \<and> roles m' = roles m) \<or>
       roles m' = map (get_role g) (role_ids m')) \<and>
   (let m' = fst (snd (GuildMember_add_roles env g m added ow ie reason log))
    in (role_ids m' = role_ids m \<and> roles m' = roles m) \<or>
       roles m' = map (get_role g) (role_ids m')) \<and>
   (let m' = fst (snd (GuildMember_remove_roles env g m removed ie reason log))
    in (role_ids m' = role_ids m \<and> roles m' = roles m) \<or>
       roles m' = map (get_role g) (role_ids m')) \<and>
   fst (snd (GuildMember_kick env g m reason log)) = m"
proof (intro conjI impI)
  assume a: "GuildMember_update_with_data env g data m = (None, m1)"
  from GuildMember_update_roles(1) [OF a]
  show "roles m1 = map (get_role g) (role_ids m1)" by simp
  then show "length (roles m1) = length (role_ids m1)" by simp
next
  assume a: "GuildMember_update_with_data env g data m = (Some e, m1)"
  from GuildMember_update_roles(2) [OF a]
  show "role_ids m1 = role_ids m" and "roles m1 = roles m" by simp_all
next
  assume a: "GuildMember_init env g data = Inr m1"
  from GuildMember_init_roles [OF a]
  show "roles m1 = map (get_role g) (role_ids m1)" .
  then show "length (roles m1) = length (role_ids m1)" by simp
next
  assume a: "GuildMember_edit env g m n rs mu d t reason log = (Inr u, m1, log1)"
    and b: "GuildMember_edit_json env n rs mu d t \<noteq> []"
  from GuildMember_edit_success [OF a b]
  show "roles m1 = map (get_role g) (role_ids m1)" .
  then show "length (roles m1) = length (role_ids m1)" by simp
next
  show "let m' = fst (snd (GuildMember_edit env g m n rs mu d t reason log))
    in (role_ids m' = role_ids m \<and> roles m' = roles m) \<or>
       roles m' = map (get_role g) (role_ids m')"
    unfolding Let_def by (rule GuildMember_edit_roles)
next
  show "let m' = fst (snd (GuildMember_add_roles env g m added ow ie reason log))
    in (role_ids m' = role_ids m \<and> roles m' = roles m) \<or>
       roles m' = map (get_role g) (role_ids m')"
    unfolding Let_def GuildMember_add_roles_member
    using GuildMember_edit_roles [of env g m EMPTY "Given (Some added)" EMPTY EMPTY EMPTY reason
        log]
    by (cases "added \<noteq> [] \<and> ow") simp_all
next
  show "let m' = fst (snd (GuildMember_remove_roles env g m removed ie reason log))
    in (role_ids m' = role_ids m \<and> roles m' = roles m) \<or>
       roles m' = map (get_role g) (role_ids m')"
    unfolding Let_def GuildMember_remove_roles_member
    using GuildMember_edit_roles [of env g m EMPTY "Given (Some [])" EMPTY EMPTY EMPTY reason
        log]
    by (cases "removed = []") simp_all
next
  show "fst (snd (GuildMember_kick env g m reason log)) = m"
    by (rule GuildMember_kick_member)
qed

theorem roles_resolve_role_ids_witness:
  "GuildMember_init example_env example_guild example_payload = Inr hydrated_member \<and>
   role_ids hydrated_member = [2, 3] \<and>
   roles hydrated_member = [get_role example_guild 2, get_role example_guild 3] \<and>
   GuildMember_update_with_data example_env example_guild [] example_member
     = (Some KeyError, example_member) \<and>
   GuildMember_edit answering_env example_guild example_member (Given (Some ''nick'')) EMPTY
      EMPTY EMPTY EMPTY None []
     = (Inr (), hydrated_member,
        [edit_guild_member 10 42 [(''nick'', JStr ''nick'')] None]) \<and>
   length (roles hydrated_member) = length (role_ids hydrated_member)"
proof -
  have ids: "role_ids hydrated_member = [2, 3]"
    by (simp add: hydrated_member_def)
  have ne: "GuildMember_edit_json answering_env (Given (Some ''nick'')) EMPTY EMPTY EMPTY EMPTY
              \<noteq> []"
    by (simp add: example_edit(2))
  note t = roles_resolve_role_ids [where g = example_guild and ?m1.0 = hydrated_member]
  from t [where env = example_env and data = example_payload and m = unset,
      THEN conjunct1, rule_format, OF example_hydration(1)]
  have 1: "roles hydrated_member = [get_role example_guild 2, get_role example_guild 3]"
    by (simp add: ids)
  from t [where env = example_env and data = example_payload,
      THEN conjunct2, THEN conjunct2, THEN conjunct1, rule_format, OF example_init]
  have 2: "length (roles hydrated_member) = length (role_ids hydrated_member)"
    by simp
  from t [where env = answering_env and m = example_member and n = "Given (Some ''nick'')"
      and rs = EMPTY and mu = EMPTY and d = EMPTY and t = EMPTY and reason = None
      and log = "[]",
      THEN conjunct2, THEN conjunct2, THEN conjunct2, THEN conjunct1, rule_format,
      OF example_edit(1) ne]
  have 3: "roles hydrated_member = map (get_role example_guild) (role_ids hydrated_member)"
    by simp
  from roles_resolve_role_ids [where env = example_env and g = example_guild and data = "[]"
      and m = example_member and ?m1.0 = example_member and e = KeyError,
      THEN conjunct2, THEN conjunct1, rule_format, OF example_failed_hydration]
  have 4: "role_ids example_member = role_ids example_member" by simp
  from example_init ids 1 example_failed_hydration example_edit(1) 2
  show ?thesis by (intro conjI)
qed

text \<open>
  Claim C10. When \<^verbatim>\<open>_update_with_data\<close> returns, \<^verbatim>\<open>role_ids\<close> holds the integers of the
  ids in the payload, \<^verbatim>\<open>roles\<close> has the same length, and its entry at each index is what
  \<^verbatim>\<open>get_role\<close> gave for the id at that index: \<^verbatim>\<open>None\<close> where the cache does not hold
  the role. Whether the hydration raises, the exception that it raises and the resulting
  \<^verbatim>\<open>role_ids\<close> are the same for every content of the cache.
\<close>

theorem unresolved_role_is_None_entry:
  "(GuildMember_update_with_data env g data m = (None, m1) \<longrightarrow>
      (\<exists>items. iter (get data ''roles'' (JList [])) = Inr items \<and>
               int_each env items = Inr (role_ids m1)) \<and>
      length (roles m1) = length (role_ids m1) \<and>
      (\<forall>i < length (role_ids m1).
         roles m1 ! i = get_role g (role_ids m1 ! i) \<and>
         (get_role g (role_ids m1 ! i) = None \<longrightarrow> roles m1 ! i = None))) \<and>
   fst (GuildMember_update_with_data env g data m)
     = fst (GuildMember_update_with_data env g' data m) \<and>
   role_ids (snd (GuildMember_update_with_data env g data m))
     = role_ids (snd (GuildMember_update_with_data env g' data m))"
proof (intro conjI impI)
  assume a: "GuildMember_update_with_data env g data m = (None, m1)"
  from GuildMember_update_roles(1) [OF a]
  have ids: "\<exists>items. iter (get data ''roles'' (JList [])) = Inr items \<and>
               int_each env items = Inr (role_ids m1)"
    and eq: "roles m1 = map (get_role g) (role_ids m1)"
    by simp_all
  show "\<exists>items. iter (get data ''roles'' (JList [])) = Inr items \<and>
               int_each env items = Inr (role_ids m1)"
    by (rule ids)
  show "length (roles m1) = length (role_ids m1)"
    by (simp add: eq)
  show "\<forall>i < length (role_ids m1).
         roles m1 ! i = get_role g (role_ids m1 ! i) \<and>
         (get_role g (role_ids m1 ! i) = None \<longrightarrow> roles m1 ! i = None)"
    by (simp add: eq)
next
  show "fst (GuildMember_update_with_data env g data m)
     = fst (GuildMember_update_with_data env g' data m)"
    by (rule GuildMember_update_outcome)
next
  show "role_ids (snd (GuildMember_update_with_data env g data m))
     = role_ids (snd (GuildMember_update_with_data env g' data m))"
    by (rule GuildMember_update_role_ids)
qed

theorem unresolved_role_is_None_entry_witness:
  "GuildMember_update_with_data example_env example_guild example_payload unset
     = (None, hydrated_member) \<and>
   role_ids hydrated_member ! 1 = 3 \<and>
   get_role example_guild 3 = None \<and>
   roles hydrated_member ! 1 = None \<and>
   length (roles hydrated_member) = 2"
proof -
  have ids: "role_ids hydrated_member = [2, 3]"
    by (simp add: hydrated_member_def)
  have none: "get_role example_guild 3 = None"
    by (simp add: example_guild_def)
  note t = unresolved_role_is_None_entry [of example_env example_guild example_payload unset
      hydrated_member, THEN conjunct1, rule_format, OF example_hydration(1)]
  from t have len: "length (roles hydrated_member) = 2"
    by (simp add: ids)
  from t have "\<forall>i < length (role_ids hydrated_member).
         roles hydrated_member ! i = get_role example_guild (role_ids hydrated_member ! i)"
    by simp
  then have "roles hydrated_member ! 1 = get_role example_guild (role_ids hydrated_member ! 1)"
    by (simp add: ids)
  with none ids have entry: "roles hydrated_member ! 1 = None"
    by simp
  from example_hydration(1) ids none entry len show ?thesis
    by simp
qed

end
